theory Spec2Isabelle
  imports Complex_Main "HOL-Library.Sublist"
begin

section \<open>Python values used by the servers\<close>

text \<open>
  A Python \<open>str\<close> is a sequence of Unicode code points, and \<open>len\<close> counts code points.
  The transcripts and the templates of this repository are mostly Korean, so a \<open>str\<close> is
  modelled as the list of its code points. \<open>ascii\<close> embeds an ASCII literal; text outside
  ASCII is written as its code points.
\<close>

type_synonym pystr = "nat list"

definition ascii :: "string \<Rightarrow> pystr" where
  "ascii s = map of_char s"

text \<open>\<open>str.isspace\<close> on one character: the code points CPython classifies as whitespace.\<close>

definition isspace :: "nat \<Rightarrow> bool" where
  "isspace c \<longleftrightarrow>
     (9 \<le> c \<and> c \<le> 13) \<or> (28 \<le> c \<and> c \<le> 32) \<or> c = 0x85 \<or> c = 0xA0 \<or> c = 0x1680 \<or>
     (0x2000 \<le> c \<and> c \<le> 0x200A) \<or> c = 0x2028 \<or> c = 0x2029 \<or> c = 0x202F \<or>
     c = 0x205F \<or> c = 0x3000"

text \<open>\<open>s.strip()\<close>: leading and trailing whitespace removed.\<close>

definition strip :: "pystr \<Rightarrow> pystr" where
  "strip s = rev (dropWhile isspace (rev (dropWhile isspace s)))"

text \<open>\<open>s.replace(old, new)\<close> where \<open>old\<close> is a single character, as in every call of the
  source: each occurrence of the character is replaced, left to right.\<close>

definition replace :: "pystr \<Rightarrow> nat \<Rightarrow> pystr \<Rightarrow> pystr" where
  "replace s old new = concat (map (\<lambda>c. if c = old then new else [c]) s)"

text \<open>
  A value read from the environment (\<open>os.getenv\<close>) or from a JSON body is \<open>None\<close> or a
  string. \<open>truthy\<close> is Python's truth value of such a value: \<open>None\<close> and the empty
  string are false.
\<close>

definition truthy :: "pystr option \<Rightarrow> bool" where
  "truthy v = (case v of None \<Rightarrow> False | Some s \<Rightarrow> s \<noteq> [])"

text \<open>The string that a value known not to be \<open>None\<close> is.\<close>

definition str_of :: "pystr option \<Rightarrow> pystr" where
  "str_of v = (case v of None \<Rightarrow> [] | Some s \<Rightarrow> s)"

text \<open>
  A key of a JSON request body is absent, \<open>null\<close>, or carries a value.
  \<open>dict_get f d\<close> is \<open>request.get(key, d)\<close>: the default only replaces an absent key.
\<close>

datatype 'a field = Absent | Null | Val 'a

fun dict_get :: "'a field \<Rightarrow> 'a \<Rightarrow> 'a option" where
  "dict_get Absent d = Some d"
| "dict_get Null d = None"
| "dict_get (Val v) d = Some v"

text \<open>
  The \<open>meetingInfo\<close> dictionary: its items, each value already rendered as the text an
  f-string gives it. A dictionary is true when it has an item.
\<close>

type_synonym pydict = "(pystr \<times> pystr) list"

definition truthy_dict :: "pydict option \<Rightarrow> bool" where
  "truthy_dict v = (case v of None \<Rightarrow> False | Some d \<Rightarrow> d \<noteq> [])"

text \<open>\<open>d.get(key, default)\<close> and \<open>key in d\<close>.\<close>

definition get_default :: "pydict \<Rightarrow> pystr \<Rightarrow> pystr \<Rightarrow> pystr" where
  "get_default d k dflt = (case map_of d k of None \<Rightarrow> dflt | Some v \<Rightarrow> v)"

definition has_key :: "pydict \<Rightarrow> pystr \<Rightarrow> bool" where
  "has_key d k = (map_of d k \<noteq> None)"

section \<open>Exceptions\<close>

text \<open>
  The exceptions the servers raise or catch. An exception raised by a library
  (\<open>requests\<close>, \<open>smtplib\<close>, the JSON decoder) carries the text \<open>str(e)\<close> gives.
  \<open>RequestException\<close> stands for \<open>requests.exceptions.RequestException\<close> and its
  subclasses, \<open>Exception\<close> for a plain \<open>Exception(msg)\<close> and for library errors of no
  class the source names.
\<close>

datatype exn =
    HTTPException nat pystr
  | ValueError pystr
  | KeyError pystr
  | IndexError pystr
  | TypeError pystr
  | RequestException pystr
  | Exception pystr

text \<open>
  \<open>str(e)\<close>. For a \<open>KeyError\<close> it is the \<open>repr\<close> of the key, which for the keys of this
  program (plain words) is the key in single quotes. The text of an \<open>HTTPException\<close> is
  decided by the web framework, so it is a parameter.
\<close>

fun str_exn :: "(nat \<Rightarrow> pystr \<Rightarrow> pystr) \<Rightarrow> exn \<Rightarrow> pystr" where
  "str_exn h (HTTPException c d) = h c d"
| "str_exn h (ValueError m) = m"
| "str_exn h (KeyError k) = [39] @ k @ [39]"
| "str_exn h (IndexError m) = m"
| "str_exn h (TypeError m) = m"
| "str_exn h (RequestException m) = m"
| "str_exn h (Exception m) = m"

fun is_HTTPException :: "exn \<Rightarrow> bool" where
  "is_HTTPException (HTTPException c d) = True"
| "is_HTTPException e = False"

fun is_RequestException :: "exn \<Rightarrow> bool" where
  "is_RequestException (RequestException m) = True"
| "is_RequestException e = False"

fun is_KeyError :: "exn \<Rightarrow> bool" where
  "is_KeyError (KeyError k) = True"
| "is_KeyError e = False"

section \<open>The outside world: configuration, the summarization endpoint, the mail relay\<close>

text \<open>
  The request \<open>requests.post(url, headers=..., json=payload, timeout=60)\<close> sends.
\<close>

record chat_message =
  role :: pystr
  content :: pystr

record payload =
  model :: pystr
  messages :: "chat_message list"
  max_tokens :: nat
  temperature :: real

record http_post =
  url :: pystr
  headers :: "(pystr \<times> pystr) list"
  json :: payload
  timeout :: nat

text \<open>
  What the endpoint answers. \<open>choices_content\<close> is the outcome of
  \<open>response.json()["choices"][0]["message"]["content"]\<close>: the completion text, or the
  exception the decoding or one of the lookups raises (a \<open>KeyError\<close>, \<open>IndexError\<close>,
  \<open>TypeError\<close>; a failed decoding is a \<open>RequestException\<close>, as in \<open>requests\<close> 2.27 and
  later). \<open>http_error\<close> is the text of the \<open>HTTPError\<close> that \<open>raise_for_status()\<close> raises
  for this response when its status is an error status.
\<close>

datatype lookup_failure =
    DecodeFailed pystr
  | MissingKey pystr
  | MissingIndex pystr
  | NotSubscriptable pystr

fun raised :: "lookup_failure \<Rightarrow> exn" where
  "raised (DecodeFailed m) = RequestException m"
| "raised (MissingKey k) = KeyError k"
| "raised (MissingIndex m) = IndexError m"
| "raised (NotSubscriptable m) = TypeError m"

record response =
  status_code :: nat
  response_text :: pystr
  http_error :: pystr
  choices_content :: "lookup_failure + pystr"

datatype post_result =
    PostRaises pystr
  | PostReturns response

text \<open>
  The message handed to the relay, and one SMTP session
  (\<open>smtplib.SMTP(host, port)\<close>, \<open>starttls()\<close>, \<open>login(user, password)\<close>,
  \<open>send_message(message)\<close>).
\<close>

record email_message =
  Subject :: pystr
  From :: pystr
  To :: pystr
  html :: pystr

record smtp_session =
  smtp_server :: pystr
  smtp_port :: nat
  login_user :: pystr
  login_password :: pystr
  message :: email_message

text \<open>
  The environment of one request: the three configuration variables, the behaviour of
  the two collaborators (\<open>relay\<close> gives \<open>None\<close> when the session completes and the text of
  the exception otherwise), and the framework's \<open>str\<close> of an \<open>HTTPException\<close>.
\<close>

record env =
  OPENAI_API_KEY :: "pystr option"
  GMAIL_USER :: "pystr option"
  GMAIL_APP_PASSWORD :: "pystr option"
  provider :: "http_post \<Rightarrow> post_result"
  relay :: "smtp_session \<Rightarrow> pystr option"
  str_HTTPException :: "nat \<Rightarrow> pystr \<Rightarrow> pystr"

text \<open>The outbound calls a request makes, in order.\<close>

datatype outbound = Post http_post | Smtp smtp_session

section \<open>JSON values of a request and of a response body\<close>

text \<open>
  The decoded body of \<open>POST /api/summarize\<close>, as the handlers that take a plain
  dictionary read it: the four keys they look up.
\<close>

record request =
  req_transcript :: "pystr field"
  req_language :: "pystr field"
  req_email :: "pystr field"
  req_meetingInfo :: "pydict field"

text \<open>A response body: a JSON object whose values are booleans and strings.\<close>

datatype jval = JBool bool | JStr pystr

type_synonym jdict = "(string \<times> jval) list"

section \<open>working\_server.py\<close>

definition get_korean_prompt :: pystr where
  \<open>get_korean_prompt =
    ascii ''\<newline>''
    @ [0xB2E4, 0xC74C, 0xC740] @ ascii '' '' @ [0xD68C, 0xC758] @ ascii '' '' @ [0xC74C, 0xC131, 0xC744] @ ascii '' STT'' @ [0xB85C] @ ascii '' '' @ [0xBCC0, 0xD658, 0xD55C] @ ascii '' '' @ [0xC6D0, 0xBCF8] @ ascii '' '' @ [0xD14D, 0xC2A4, 0xD2B8, 0xC785, 0xB2C8, 0xB2E4] @ ascii ''. \<newline>''
    @ [0xC544, 0xB798] @ ascii '' '' @ [0xC791, 0xC5C5, 0xC744] @ ascii '' '' @ [0xC218, 0xD589, 0xD574, 0xC8FC, 0xC138, 0xC694] @ ascii '':\<newline>''
    @ ascii ''\<newline>''
    @ ascii ''1. STT '' @ [0xC624, 0xB958] @ ascii '' '' @ [0xBCF4, 0xC815] @ ascii '': '' @ [0xBA85, 0xBC31, 0xD55C] @ ascii '' '' @ [0xC778, 0xC2DD] @ ascii '' '' @ [0xC624, 0xB958, 0xB098] @ ascii '' '' @ [0xBB38, 0xBC95] @ ascii '' '' @ [0xC624, 0xB958, 0xB97C] @ ascii '' '' @ [0xC790, 0xC5F0, 0xC2A4, 0xB7FD, 0xAC8C] @ ascii '' '' @ [0xC218, 0xC815] @ ascii ''\<newline>''
    @ ascii ''2. '' @ [0xD68C, 0xC758] @ ascii '' '' @ [0xC694, 0xC57D] @ ascii '' '' @ [0xC791, 0xC131] @ ascii '': \<newline>''
    @ ascii ''   - '' @ [0xC8FC, 0xC694] @ ascii '' '' @ [0xB17C, 0xC758] @ ascii '' '' @ [0xC0AC, 0xD56D] @ ascii '' (3-5'' @ [0xAC1C] @ ascii '' '' @ [0xD575, 0xC2EC] @ ascii '' '' @ [0xD3EC, 0xC778, 0xD2B8] @ ascii '')\<newline>''
    @ ascii ''   - '' @ [0xACB0, 0xC815, 0xB41C] @ ascii '' '' @ [0xC0AC, 0xD56D] @ ascii ''\<newline>''
    @ ascii ''   - '' @ [0xC561, 0xC158] @ ascii '' '' @ [0xC544, 0xC774, 0xD15C] @ ascii '' ('' @ [0xB2F4, 0xB2F9, 0xC790, 0xC640] @ ascii '' '' @ [0xAE30, 0xD55C] @ ascii '' '' @ [0xD3EC, 0xD568] @ ascii '' '' @ [0xC2DC] @ ascii '')\<newline>''
    @ ascii ''   - '' @ [0xB2E4, 0xC74C] @ ascii '' '' @ [0xD68C, 0xC758] @ ascii '' '' @ [0xC77C, 0xC815, 0xC774, 0xB098] @ ascii '' '' @ [0xD6C4, 0xC18D] @ ascii '' '' @ [0xC870, 0xCE58] @ ascii ''\<newline>''
    @ ascii ''\<newline>''
    @ [0xC751, 0xB2F5] @ ascii '' '' @ [0xD615, 0xC2DD] @ ascii '':\<newline>''
    @ ascii ''## '' @ [0x1F4DD] @ ascii '' '' @ [0xD68C, 0xC758] @ ascii '' '' @ [0xC694, 0xC57D] @ ascii ''\<newline>''
    @ ascii ''\<newline>''
    @ ascii ''### '' @ [0x1F3AF] @ ascii '' '' @ [0xC8FC, 0xC694] @ ascii '' '' @ [0xB17C, 0xC758] @ ascii '' '' @ [0xC0AC, 0xD56D] @ ascii ''\<newline>''
    @ ascii ''- '' @ [0xD575, 0xC2EC] @ ascii '' '' @ [0xD3EC, 0xC778, 0xD2B8] @ ascii '' 1\<newline>''
    @ ascii ''- '' @ [0xD575, 0xC2EC] @ ascii '' '' @ [0xD3EC, 0xC778, 0xD2B8] @ ascii '' 2\<newline>''
    @ ascii ''\<newline>''
    @ ascii ''### '' @ [0x2705] @ ascii '' '' @ [0xACB0, 0xC815] @ ascii '' '' @ [0xC0AC, 0xD56D] @ ascii ''\<newline>''
    @ ascii ''- '' @ [0xACB0, 0xC815, 0xB41C] @ ascii '' '' @ [0xB0B4, 0xC6A9, 0xB4E4] @ ascii ''\<newline>''
    @ ascii ''\<newline>''
    @ ascii ''### '' @ [0x1F4CB] @ ascii '' '' @ [0xC561, 0xC158] @ ascii '' '' @ [0xC544, 0xC774, 0xD15C] @ ascii ''\<newline>''
    @ ascii ''- [ ] '' @ [0xC791, 0xC5C5] @ ascii '' '' @ [0xB0B4, 0xC6A9] @ ascii '' ('' @ [0xB2F4, 0xB2F9, 0xC790] @ ascii '', '' @ [0xAE30, 0xD55C] @ ascii '')\<newline>''
    @ ascii ''\<newline>''
    @ ascii ''### '' @ [0x1F4C5] @ ascii '' '' @ [0xD6C4, 0xC18D] @ ascii '' '' @ [0xC870, 0xCE58] @ ascii ''\<newline>''
    @ ascii ''- '' @ [0xB2E4, 0xC74C] @ ascii '' '' @ [0xD68C, 0xC758] @ ascii '' '' @ [0xC77C, 0xC815] @ ascii '' '' @ [0xB4F1] @ ascii ''\<newline>''
    @ ascii ''\<newline>''
    @ [0xC6D0, 0xBCF8] @ ascii '' STT '' @ [0xD14D, 0xC2A4, 0xD2B8] @ ascii '':\<newline>''\<close>

definition get_english_prompt :: pystr where
  \<open>get_english_prompt =
    ascii ''\<newline>''
    @ ascii ''Please summarize this meeting transcript:\<newline>''
    @ ascii ''\<newline>''
    @ ascii ''1. STT Error Correction: Fix obvious speech recognition errors\<newline>''
    @ ascii ''2. Meeting Summary:\<newline>''
    @ ascii ''   - Key discussion points (3-5 core points)\<newline>''
    @ ascii ''   - Decisions made\<newline>''
    @ ascii ''   - Action items (with assignees and deadlines)\<newline>''
    @ ascii ''   - Follow-up actions\<newline>''
    @ ascii ''\<newline>''
    @ ascii ''Response format:\<newline>''
    @ ascii ''## '' @ [0x1F4DD] @ ascii '' Meeting Summary\<newline>''
    @ ascii ''\<newline>''
    @ ascii ''### '' @ [0x1F3AF] @ ascii '' Key Discussion Points\<newline>''
    @ ascii ''- Point 1\<newline>''
    @ ascii ''- Point 2\<newline>''
    @ ascii ''\<newline>''
    @ ascii ''### '' @ [0x2705] @ ascii '' Decisions Made\<newline>''
    @ ascii ''- Decided items\<newline>''
    @ ascii ''\<newline>''
    @ ascii ''### '' @ [0x1F4CB] @ ascii '' Action Items\<newline>''
    @ ascii ''- [ ] Task (assignee, deadline)\<newline>''
    @ ascii ''\<newline>''
    @ ascii ''### '' @ [0x1F4C5] @ ascii '' Follow-up Actions\<newline>''
    @ ascii ''- Next meeting schedule\<newline>''
    @ ascii ''\<newline>''
    @ ascii ''Original STT Text:\<newline>''\<close>

definition OPENAI_API_URL :: pystr where
  \<open>OPENAI_API_URL = ascii ''https://api.openai.com/v1/chat/completions''\<close>

definition system_content :: pystr where
  \<open>system_content =
    ascii ''You are a professional meeting summarizer with expertise in correcting STT errors and creating structured summaries.''\<close>

definition request_headers :: "pystr \<Rightarrow> (pystr \<times> pystr) list" where
  \<open>request_headers openai_api_key =
    [(ascii ''Content-Type'', ascii ''application/json''),
     (ascii ''Authorization'', ascii ''Bearer '' @ openai_api_key)]\<close>

definition key_missing_detail :: pystr where
  \<open>key_missing_detail =
    ascii ''OPENAI_API_KEY'' @ [0xAC00] @ ascii '' '' @ [0xC124, 0xC815, 0xB418, 0xC9C0] @ ascii '' '' @ [0xC54A, 0xC558, 0xC2B5, 0xB2C8, 0xB2E4]\<close>

definition api_error_detail :: pystr where
  \<open>api_error_detail =
    ascii ''OpenAI API '' @ [0xC624, 0xB958] @ ascii '': ''\<close>

text \<open>
  The texts of \<open>get_korean_prompt\<close>, of \<open>get_english_prompt\<close>, of the system message and
  of the head and the middle of the HTML body are the same in working\_server.py and
  clean\_server.py; simple\_http\_server.py has the same Korean template.

  \<open>call_openai_api(transcript, language)\<close>. The result is the completion text or the
  exception raised, together with the outbound calls made. \<open>language\<close> is the Python value
  read from the request (\<open>None\<close> for a JSON \<open>null\<close>).
\<close>

definition call_openai_api_ws ::
  "env \<Rightarrow> pystr \<Rightarrow> pystr option \<Rightarrow> (exn + pystr) \<times> outbound list" where
  \<open>call_openai_api_ws env transcript language =
    (if \<not> truthy (OPENAI_API_KEY env) then (Inl (HTTPException 500 key_missing_detail), [])
     else
       let openai_api_key = str_of (OPENAI_API_KEY env);
           prompt = (if language = Some (ascii ''korean'') then get_korean_prompt
                     else get_english_prompt);
           payload = \<lparr>model = ascii ''gpt-4o'',
                      messages = [\<lparr>role = ascii ''system'', content = system_content\<rparr>,
                                  \<lparr>role = ascii ''user'',
                                   content = prompt @ ascii ''\<newline>\<newline>'' @ transcript\<rparr>],
                      max_tokens = 2000,
                      temperature = 0.3\<rparr>;
           call = \<lparr>url = OPENAI_API_URL, headers = request_headers openai_api_key,
                   json = payload, timeout = 60\<rparr>
       in case provider env call of
            PostRaises m \<Rightarrow> (Inl (RequestException m), [Post call])
          | PostReturns response \<Rightarrow>
              if status_code response = 200 then
                (case choices_content response of
                   Inl f \<Rightarrow> (Inl (raised f), [Post call])
                 | Inr completion \<Rightarrow> (Inr completion, [Post call]))
              else (Inl (HTTPException 500 (api_error_detail @ response_text response)), [Post call]))\<close>

definition subject_prefix :: pystr where
  \<open>subject_prefix = [0x1F4CB] @ ascii '' '' @ [0xD68C, 0xC758] @ ascii '' '' @ [0xC694, 0xC57D] @ ascii '' - ''\<close>

definition today :: pystr where
  \<open>today = [0xC624, 0xB298]\<close>

definition dict_of :: "pydict option \<Rightarrow> pydict" where
  "dict_of v = (case v of None \<Rightarrow> [] | Some d \<Rightarrow> d)"

text \<open>\<open>summary.replace('<', '&lt;').replace('>', '&gt;')\<close>\<close>

definition escape_summary :: "pystr \<Rightarrow> pystr" where
  \<open>escape_summary summary =
    replace (replace summary (of_char CHR ''<'') (ascii ''&lt;'')) (of_char CHR ''>'') (ascii ''&gt;'')\<close>

definition html_head :: pystr where
  \<open>html_head =
    ascii ''\<newline>''
    @ ascii ''        <!DOCTYPE html>\<newline>''
    @ ascii ''        <html>\<newline>''
    @ ascii ''        <head>\<newline>''
    @ ascii ''            <meta charset="utf-8">\<newline>''
    @ ascii ''            <style>\<newline>''
    @ ascii ''                body { font-family: -apple-system, BlinkMacSystemFont, 'Segoe UI', Roboto, sans-serif; line-height: 1.6; color: #333; }\<newline>''
    @ ascii ''                .header { background: #f8f9fa; padding: 20px; border-radius: 8px; margin-bottom: 20px; }\<newline>''
    @ ascii ''                .content { padding: 20px; }\<newline>''
    @ ascii ''                .summary { background: #fff; border: 1px solid #e9ecef; border-radius: 8px; padding: 20px; }\<newline>''
    @ ascii ''                h1, h2, h3 { color: #2d3748; }\<newline>''
    @ ascii ''                .meta-info { background: #e3f2fd; padding: 15px; border-radius: 5px; margin-bottom: 20px; }\<newline>''
    @ ascii ''            </style>\<newline>''
    @ ascii ''        </head>\<newline>''
    @ ascii ''        <body>\<newline>''
    @ ascii ''            <div class="header">\<newline>''
    @ ascii ''                <h1>'' @ [0x1F3AF] @ ascii '' AI '' @ [0xD68C, 0xC758] @ ascii '' '' @ [0xC694, 0xC57D] @ ascii '' '' @ [0xACB0, 0xACFC] @ ascii ''</h1>\<newline>''
    @ ascii ''                <p>STT '' @ [0xACB0, 0xACFC, 0xB97C] @ ascii '' '' @ [0xBD84, 0xC11D, 0xD558, 0xC5EC] @ ascii '' '' @ [0xC790, 0xB3D9, 0xC73C, 0xB85C] @ ascii '' '' @ [0xC0DD, 0xC131, 0xB41C] @ ascii '' '' @ [0xD68C, 0xC758] @ ascii '' '' @ [0xC694, 0xC57D, 0xC785, 0xB2C8, 0xB2E4] @ ascii ''.</p>\<newline>''
    @ ascii ''            </div>\<newline>''
    @ ascii ''            \<newline>''
    @ ascii ''            ''\<close>

definition html_middle :: pystr where
  \<open>html_middle =
    ascii ''\<newline>''
    @ ascii ''            \<newline>''
    @ ascii ''            <div class="content">\<newline>''
    @ ascii ''                <div class="summary">\<newline>''
    @ ascii ''                    <div style="white-space: pre-wrap; font-family: inherit;">\<newline>''\<close>

definition html_tail_ws :: pystr where
  \<open>html_tail_ws =
    ascii ''\<newline>''
    @ ascii ''                    </div>\<newline>''
    @ ascii ''                </div>\<newline>''
    @ ascii ''            </div>\<newline>''
    @ ascii ''            \<newline>''
    @ ascii ''            <div style="margin-top: 30px; padding: 15px; background: #f8f9fa; border-radius: 5px; font-size: 12px; color: #6c757d;">\<newline>''
    @ ascii ''                <p>'' @ [0xC774] @ ascii '' '' @ [0xC694, 0xC57D, 0xC740] @ ascii '' AI(OpenAI GPT-4)'' @ [0xB97C] @ ascii '' '' @ [0xD1B5, 0xD574] @ ascii '' '' @ [0xC790, 0xB3D9] @ ascii '' '' @ [0xC0DD, 0xC131, 0xB418, 0xC5C8, 0xC2B5, 0xB2C8, 0xB2E4] @ ascii ''. '' @ [0xB0B4, 0xC6A9, 0xC744] @ ascii '' '' @ [0xAC80, 0xD1A0, 0xD558, 0xC2DC, 0xACE0] @ ascii '' '' @ [0xD544, 0xC694, 0xC2DC] @ ascii '' '' @ [0xC218, 0xC815, 0xD574] @ ascii '' '' @ [0xC8FC, 0xC138, 0xC694] @ ascii ''.</p>\<newline>''
    @ ascii ''            </div>\<newline>''
    @ ascii ''        </body>\<newline>''
    @ ascii ''        </html>\<newline>''
    @ ascii ''        ''\<close>

text \<open>The constant pieces of the meeting-information block.\<close>

definition meta_date :: pystr where
  \<open>meta_date =
    ascii ''\<newline>''
    @ ascii ''            <div class="meta-info">\<newline>''
    @ ascii ''                <h3>'' @ [0x1F4C5] @ ascii '' '' @ [0xD68C, 0xC758] @ ascii '' '' @ [0xC815, 0xBCF4] @ ascii ''</h3>\<newline>''
    @ ascii ''                <p><strong>'' @ [0xB0A0, 0xC9DC] @ ascii '':</strong> ''\<close>

definition meta_startTime :: pystr where
  \<open>meta_startTime =
    ascii ''</p>\<newline>''
    @ ascii ''                <p><strong>'' @ [0xC2DC, 0xC791] @ ascii '' '' @ [0xC2DC, 0xAC04] @ ascii '':</strong> ''\<close>

definition meta_duration :: pystr where
  \<open>meta_duration =
    ascii ''</p>\<newline>''
    @ ascii ''                <p><strong>'' @ [0xB179, 0xC74C] @ ascii '' '' @ [0xC2DC, 0xAC04] @ ascii '':</strong> ''\<close>

definition meta_segmentCount :: pystr where
  \<open>meta_segmentCount =
    ascii ''</p>\<newline>''
    @ ascii ''                <p><strong>'' @ [0xC138, 0xADF8, 0xBA3C, 0xD2B8] @ ascii '' '' @ [0xC218] @ ascii '':</strong> ''\<close>

definition meta_end_ws :: pystr where
  \<open>meta_end_ws =
    [0xAC1C] @ ascii ''</p>\<newline>''
    @ ascii ''            </div>\<newline>''
    @ ascii ''            ''\<close>

text \<open>
  The inner f-string of \<open>html_content\<close>, evaluated when \<open>meeting_info\<close> is true:
  \<open>meeting_info["date"]\<close> raises \<open>KeyError\<close> when the key is missing, the other three
  fields are read with \<open>.get(key, "")\<close>.
\<close>

definition meta_info_ws :: "pydict \<Rightarrow> exn + pystr" where
  \<open>meta_info_ws meeting_info =
    (case map_of meeting_info (ascii ''date'') of
       None \<Rightarrow> Inl (KeyError (ascii ''date''))
     | Some d \<Rightarrow>
         Inr (meta_date @ d
              @ meta_startTime @ get_default meeting_info (ascii ''startTime'') []
              @ meta_duration @ get_default meeting_info (ascii ''duration'') []
              @ meta_segmentCount @ get_default meeting_info (ascii ''segmentCount'') []
              @ meta_end_ws))\<close>

definition html_content_ws :: "pystr \<Rightarrow> pydict option \<Rightarrow> exn + pystr" where
  "html_content_ws summary meeting_info =
    (case (if truthy_dict meeting_info then meta_info_ws (dict_of meeting_info) else Inr []) of
       Inl e \<Rightarrow> Inl e
     | Inr meta \<Rightarrow>
         Inr (html_head @ meta @ html_middle @ escape_summary summary @ html_tail_ws))"

definition subject_ws :: "pydict option \<Rightarrow> pystr" where
  \<open>subject_ws meeting_info =
    subject_prefix @
    (if truthy_dict meeting_info then get_default (dict_of meeting_info) (ascii ''date'') today
     else today)\<close>

text \<open>
  \<open>send_email(email, summary, meeting_info)\<close>: the whole body is inside
  \<open>try ... except Exception: return False\<close>, so the result is a boolean.
\<close>

definition send_email_ws ::
  "env \<Rightarrow> pystr \<Rightarrow> pystr \<Rightarrow> pydict option \<Rightarrow> bool \<times> outbound list" where
  \<open>send_email_ws env email summary meeting_info =
    (if \<not> truthy (GMAIL_USER env) \<or> \<not> truthy (GMAIL_APP_PASSWORD env) then (False, [])
     else
       let sender_email = str_of (GMAIL_USER env);
           sender_password = str_of (GMAIL_APP_PASSWORD env)
       in case html_content_ws summary meeting_info of
            Inl e \<Rightarrow> (False, [])
          | Inr html_content \<Rightarrow>
              let session = \<lparr>smtp_server = ascii ''smtp.gmail.com'', smtp_port = 587,
                             login_user = sender_email, login_password = sender_password,
                             message = \<lparr>Subject = subject_ws meeting_info, From = sender_email,
                                        To = email, html = html_content\<rparr>\<rparr>
              in case relay env session of
                   None \<Rightarrow> (True, [Smtp session])
                 | Some e \<Rightarrow> (False, [Smtp session]))\<close>

definition too_short_detail :: pystr where
  \<open>too_short_detail = [0xD14D, 0xC2A4, 0xD2B8, 0xAC00] @ ascii '' '' @ [0xB108, 0xBB34] @ ascii '' '' @ [0xC9E7, 0xC2B5, 0xB2C8, 0xB2E4]\<close>

definition failed_detail :: pystr where
  \<open>failed_detail = [0xC694, 0xC57D] @ ascii '' '' @ [0xCC98, 0xB9AC] @ ascii '' '' @ [0xC2E4, 0xD328] @ ascii '': ''\<close>

text \<open>
  The two handlers that close \<open>summarize_and_email\<close>:
  \<open>except HTTPException: raise\<close> and
  \<open>except Exception as e: raise HTTPException(status_code=500, ...)\<close>.
\<close>

definition reraise_ws :: "env \<Rightarrow> exn \<Rightarrow> exn" where
  "reraise_ws env e =
    (if is_HTTPException e then e
     else HTTPException 500 (failed_detail @ str_exn (str_HTTPException env) e))"

definition success_body :: "pystr \<Rightarrow> bool \<Rightarrow> jdict" where
  \<open>success_body summary email_sent =
    [(''success'', JBool True), (''summary'', JStr summary), (''emailSent'', JBool email_sent)]\<close>

text \<open>
  \<open>summarize_and_email(request)\<close>. The log line before the validation evaluates
  \<open>len(transcript)\<close>, which raises \<open>TypeError\<close> for a \<open>null\<close> transcript.
\<close>

definition summarize_and_email_ws ::
  "env \<Rightarrow> request \<Rightarrow> (exn + jdict) \<times> outbound list" where
  \<open>summarize_and_email_ws env request =
    (let transcript = dict_get (req_transcript request) [];
         language = dict_get (req_language request) (ascii ''korean'');
         email = dict_get (req_email request) [];
         meeting_info = dict_get (req_meetingInfo request) []
     in case transcript of
          None \<Rightarrow>
            (Inl (reraise_ws env (TypeError (ascii ''object of type 'NoneType' has no len()''))), [])
        | Some transcript \<Rightarrow>
            if transcript = [] \<or> length transcript < 10
            then (Inl (reraise_ws env (HTTPException 400 too_short_detail)), [])
            else
              (case call_openai_api_ws env transcript language of
                 (Inl e, calls) \<Rightarrow> (Inl (reraise_ws env e), calls)
               | (Inr summary, calls) \<Rightarrow>
                   if truthy email \<and> strip (str_of email) \<noteq> []
                   then
                     (case send_email_ws env (strip (str_of email))
                             summary meeting_info of
                        (email_sent, sent) \<Rightarrow> (Inr (success_body summary email_sent), calls @ sent))
                   else (Inr (success_body summary False), calls)))\<close>

section \<open>main.py\<close>

text \<open>The request and response models of the typed variant.\<close>

record MeetingInfo =
  mi_date :: pystr
  mi_startTime :: pystr
  mi_duration :: pystr
  mi_segmentCount :: int

record SummaryRequest =
  sr_transcript :: pystr
  sr_language :: pystr
  sr_email :: pystr
  sr_meetingInfo :: "MeetingInfo option"
  sr_prompt :: "pystr option"

record SummaryResponse =
  resp_success :: bool
  resp_summary :: "pystr option"
  resp_correctedTranscript :: "pystr option"
  resp_emailSent :: bool
  resp_error :: "pystr option"

definition get_korean_prompt_main :: pystr where
  \<open>get_korean_prompt_main =
    ascii ''\<newline>''
    @ [0xB2F9, 0xC2E0, 0xC740] @ ascii '' '' @ [0xC804, 0xBB38, 0xC801, 0xC778] @ ascii '' '' @ [0xD68C, 0xC758, 0xB85D] @ ascii '' '' @ [0xC694, 0xC57D] @ ascii '' '' @ [0xC804, 0xBB38, 0xAC00, 0xC785, 0xB2C8, 0xB2E4] @ ascii ''. '' @ [0xC8FC, 0xC5B4, 0xC9C4] @ ascii '' STT '' @ [0xACB0, 0xACFC, 0xB97C] @ ascii '' '' @ [0xBD84, 0xC11D, 0xD558, 0xACE0] @ ascii '' '' @ [0xC694, 0xC57D, 0xD574, 0xC8FC, 0xC138, 0xC694] @ ascii ''.\<newline>''
    @ ascii ''\<newline>''
    @ [0xB2E4, 0xC74C, 0xACFC] @ ascii '' '' @ [0xAC19, 0xC740] @ ascii '' '' @ [0xD615, 0xC2DD, 0xC73C, 0xB85C] @ ascii '' '' @ [0xC694, 0xC57D, 0xD574, 0xC8FC, 0xC138, 0xC694] @ ascii '':\<newline>''
    @ ascii ''\<newline>''
    @ ascii ''##'' @ [0x1F4DD] @ ascii '' '' @ [0xD68C, 0xC758] @ ascii '' '' @ [0xC694, 0xC57D] @ ascii ''\<newline>''
    @ ascii ''\<newline>''
    @ ascii ''###'' @ [0x1F3AF] @ ascii '' '' @ [0xC8FC, 0xC694] @ ascii '' '' @ [0xB17C, 0xC758] @ ascii '' '' @ [0xC0AC, 0xD56D] @ ascii ''\<newline>''
    @ ascii ''- ('' @ [0xC8FC, 0xC694] @ ascii '' '' @ [0xB17C, 0xC758, 0xB41C] @ ascii '' '' @ [0xB0B4, 0xC6A9, 0xB4E4, 0xC744] @ ascii '' '' @ [0xC694, 0xC810] @ ascii '' '' @ [0xC815, 0xB9AC] @ ascii '')\<newline>''
    @ ascii ''\<newline>''
    @ ascii ''\<newline>''
    @ ascii ''###'' @ [0x1F527] @ ascii '' STT '' @ [0xACB0, 0xACFC] @ ascii '' '' @ [0xAC1C, 0xC120, 0xC0AC, 0xD56D] @ ascii ''\<newline>''
    @ ascii ''- (STT'' @ [0xC5D0, 0xC11C] @ ascii '' '' @ [0xC798, 0xBABB] @ ascii '' '' @ [0xC778, 0xC2DD, 0xB41C] @ ascii '' '' @ [0xBD80, 0xBD84, 0xC774] @ ascii '' '' @ [0xC788, 0xB2E4, 0xBA74] @ ascii '' '' @ [0xC218, 0xC815, 0xC0AC, 0xD56D] @ ascii '' '' @ [0xC81C, 0xC2DC] @ ascii '')\<newline>''
    @ ascii ''\<newline>''
    @ ascii ''**'' @ [0xC8FC, 0xC758, 0xC0AC, 0xD56D] @ ascii '':**\<newline>''
    @ ascii ''1. STT '' @ [0xACB0, 0xACFC, 0xC5D0] @ ascii '' '' @ [0xC624, 0xB958, 0xAC00] @ ascii '' '' @ [0xC788, 0xC744] @ ascii '' '' @ [0xC218] @ ascii '' '' @ [0xC788, 0xC73C, 0xBBC0, 0xB85C] @ ascii '' '' @ [0xBB38, 0xB9E5, 0xC744] @ ascii '' '' @ [0xACE0, 0xB824, 0xD574] @ ascii '' '' @ [0xD574, 0xC11D, 0xD558, 0xC138, 0xC694] @ ascii ''\<newline>''
    @ ascii ''2. '' @ [0xC911, 0xC694, 0xD55C] @ ascii '' '' @ [0xC22B, 0xC790] @ ascii '', '' @ [0xB0A0, 0xC9DC] @ ascii '', '' @ [0xC774, 0xB984] @ ascii '' '' @ [0xB4F1, 0xC740] @ ascii '' '' @ [0xC815, 0xD655, 0xD788] @ ascii '' '' @ [0xD30C, 0xC545, 0xD558, 0xC138, 0xC694] @ ascii ''\<newline>''
    @ ascii ''3. '' @ [0xBD88, 0xD544, 0xC694, 0xD55C] @ ascii '' '' @ [0xCD94, 0xCE21, 0xC740] @ ascii '' '' @ [0xD558, 0xC9C0] @ ascii '' '' @ [0xB9C8, 0xC138, 0xC694] @ ascii ''\<newline>''
    @ ascii ''4. '' @ [0xD55C, 0xAD6D, 0xC5B4, 0xB85C] @ ascii '' '' @ [0xC791, 0xC131, 0xD574, 0xC8FC, 0xC138, 0xC694] @ ascii ''\<newline>''\<close>

definition get_english_prompt_main :: pystr where
  \<open>get_english_prompt_main =
    ascii ''\<newline>''
    @ ascii ''You are a professional meeting summarizer. Please analyze and summarize the given STT results.\<newline>''
    @ ascii ''\<newline>''
    @ ascii ''Please format the summary as follows:\<newline>''
    @ ascii ''\<newline>''
    @ ascii ''## '' @ [0x1F4DD] @ ascii '' Meeting Summary\<newline>''
    @ ascii ''\<newline>''
    @ ascii ''### '' @ [0x1F3AF] @ ascii '' Key Discussion Points\<newline>''
    @ ascii ''- (Main topics discussed)\<newline>''
    @ ascii ''\<newline>''
    @ ascii ''### '' @ [0x2705] @ ascii '' Decisions Made\<newline>''
    @ ascii ''- (Decisions reached during the meeting)\<newline>''
    @ ascii ''\<newline>''
    @ ascii ''### '' @ [0x1F4CB] @ ascii '' Action Items\<newline>''
    @ ascii ''- (Follow-up tasks and responsibilities)\<newline>''
    @ ascii ''\<newline>''
    @ ascii ''### '' @ [0x1F527] @ ascii '' STT Corrections\<newline>''
    @ ascii ''- (Any corrections needed for STT misrecognitions)\<newline>''
    @ ascii ''\<newline>''
    @ ascii ''**Guidelines:**\<newline>''
    @ ascii ''1. STT results may contain errors, so interpret based on context\<newline>''
    @ ascii ''2. Accurately identify important numbers, dates, names\<newline>''
    @ ascii ''3. Avoid unnecessary speculation\<newline>''
    @ ascii ''4. Write in English\<newline>''\<close>

definition key_missing_main :: pystr where
  \<open>key_missing_main =
    ascii ''OPENAI_API_KEY '' @ [0xD658, 0xACBD, 0xBCC0, 0xC218, 0xAC00] @ ascii '' '' @ [0xC124, 0xC815, 0xB418, 0xC9C0] @ ascii '' '' @ [0xC54A, 0xC558, 0xC2B5, 0xB2C8, 0xB2E4]\<close>

definition call_failed_main :: pystr where
  \<open>call_failed_main = ascii ''OpenAI API '' @ [0xD638, 0xCD9C] @ ascii '' '' @ [0xC2E4, 0xD328] @ ascii '': ''\<close>

definition parse_failed_main :: pystr where
  \<open>parse_failed_main = ascii ''OpenAI API '' @ [0xC751, 0xB2F5] @ ascii '' '' @ [0xD30C, 0xC2F1] @ ascii '' '' @ [0xC2E4, 0xD328] @ ascii '': ''\<close>

text \<open>
  The handlers of \<open>call_openai_api\<close>:
  \<open>except requests.exceptions.RequestException\<close> and \<open>except KeyError\<close>, each raising
  an \<open>HTTPException\<close> with status 500; any other exception passes.
\<close>

definition api_handlers_main :: "env \<Rightarrow> exn \<Rightarrow> exn" where
  "api_handlers_main env e =
    (if is_RequestException e
     then HTTPException 500 (call_failed_main @ str_exn (str_HTTPException env) e)
     else if is_KeyError e
     then HTTPException 500 (parse_failed_main @ str_exn (str_HTTPException env) e)
     else e)"

text \<open>
  \<open>call_openai_api(messages, model="gpt-4o")\<close>. The key is checked before the
  \<open>try\<close>, so the \<open>ValueError\<close> passes the two handlers. \<open>raise_for_status()\<close> raises for
  a status from 400 to 599.
\<close>

definition call_openai_api_main ::
  "env \<Rightarrow> chat_message list \<Rightarrow> pystr \<Rightarrow> (exn + pystr) \<times> outbound list" where
  \<open>call_openai_api_main env msgs mdl =
    (if \<not> truthy (OPENAI_API_KEY env) then (Inl (ValueError key_missing_main), [])
     else
       let openai_api_key = str_of (OPENAI_API_KEY env);
           payload = \<lparr>model = mdl, messages = msgs, max_tokens = 2000, temperature = 0.3\<rparr>;
           call = \<lparr>url = OPENAI_API_URL, headers = request_headers openai_api_key,
                   json = payload, timeout = 60\<rparr>
       in case provider env call of
            PostRaises m \<Rightarrow> (Inl (api_handlers_main env (RequestException m)), [Post call])
          | PostReturns response \<Rightarrow>
              if 400 \<le> status_code response \<and> status_code response < 600
              then (Inl (api_handlers_main env (RequestException (http_error response))),
                    [Post call])
              else
                (case choices_content response of
                   Inl f \<Rightarrow> (Inl (api_handlers_main env (raised f)), [Post call])
                 | Inr completion \<Rightarrow> (Inr completion, [Post call])))\<close>

definition transcript_heading_main :: pystr where
  \<open>transcript_heading_main =
    ascii ''\<newline>''
    @ ascii ''\<newline>''
    @ ascii ''**'' @ [0xD68C, 0xC758] @ ascii '' '' @ [0xB0B4, 0xC6A9] @ ascii '':**\<newline>''\<close>

definition summary_failed_main :: pystr where
  \<open>summary_failed_main = [0xC694, 0xC57D] @ ascii '' '' @ [0xC0DD, 0xC131] @ ascii '' '' @ [0xC2E4, 0xD328] @ ascii '': ''\<close>

text \<open>
  \<open>generate_summary(transcript, language)\<close>: everything is inside
  \<open>try ... except Exception\<close>, which turns every exception, also an \<open>HTTPException\<close> of
  \<open>call_openai_api\<close>, into an \<open>HTTPException\<close> with status 500.
\<close>

definition generate_summary_main ::
  "env \<Rightarrow> pystr \<Rightarrow> pystr \<Rightarrow> (exn + pystr) \<times> outbound list" where
  \<open>generate_summary_main env transcript language =
    (let prompt = (if language = ascii ''korean'' then get_korean_prompt_main
                   else get_english_prompt_main);
         msgs = [\<lparr>role = ascii ''system'', content = system_content\<rparr>,
                 \<lparr>role = ascii ''user'',
                  content = prompt @ transcript_heading_main @ transcript\<rparr>]
     in case call_openai_api_main env msgs (ascii ''gpt-4o'') of
          (Inl e, calls) \<Rightarrow>
            (Inl (HTTPException 500 (summary_failed_main @ str_exn (str_HTTPException env) e)),
             calls)
        | (Inr completion, calls) \<Rightarrow> (Inr completion, calls))\<close>

definition credentials_missing_main :: pystr where
  \<open>credentials_missing_main =
    ascii ''Gmail '' @ [0xC778, 0xC99D] @ ascii '' '' @ [0xC815, 0xBCF4, 0xAC00] @ ascii '' '' @ [0xC124, 0xC815, 0xB418, 0xC9C0] @ ascii '' '' @ [0xC54A, 0xC558, 0xC2B5, 0xB2C8, 0xB2E4]\<close>

definition mail_failed_main :: pystr where
  \<open>mail_failed_main = [0xC774, 0xBA54, 0xC77C] @ ascii '' '' @ [0xBC1C, 0xC1A1] @ ascii '' '' @ [0xC2E4, 0xD328] @ ascii '': ''\<close>

definition meta_end_main :: pystr where
  \<open>meta_end_main =
    ascii ''</p>\<newline>''
    @ ascii ''            </div>\<newline>''
    @ ascii ''            ''\<close>

definition html_tail_main :: pystr where
  \<open>html_tail_main =
    ascii ''\<newline>''
    @ ascii ''                    </div>\<newline>''
    @ ascii ''                </div>\<newline>''
    @ ascii ''            </div>\<newline>''
    @ ascii ''            \<newline>''
    @ ascii ''            <div style="margin-top: 30px; padding: 15px; background: #f8f9fa; border-radius: 5px; font-size: 12px; color: #6c757d;">\<newline>''
    @ ascii ''                <p>'' @ [0xC774] @ ascii '' '' @ [0xC694, 0xC57D, 0xC740] @ ascii '' AI(OpenAI GPT-4)'' @ [0xB97C] @ ascii '' '' @ [0xD1B5, 0xD574] @ ascii '' '' @ [0xC790, 0xB3D9] @ ascii '' '' @ [0xC0DD, 0xC131, 0xB418, 0xC5C8, 0xC2B5, 0xB2C8, 0xB2E4] @ ascii ''. '' @ [0xB0B4, 0xC6A9, 0xC744] @ ascii '' '' @ [0xAC80, 0xD1A0, 0xD558, 0xC2DC, 0xACE0] @ ascii '' '' @ [0xD544, 0xC694, 0xC2DC] @ ascii '' '' @ [0xC218, 0xC815, 0xD574] @ ascii '' '' @ [0xC8FC, 0xC138, 0xC694] @ ascii ''.</p>\<newline>''
    @ ascii ''                <p>'' @ [0xC0DD, 0xC131] @ ascii '' '' @ [0xC2DC, 0xAC04] @ ascii '': ''\<close>

definition html_end_main :: pystr where
  \<open>html_end_main =
    ascii ''</p>\<newline>''
    @ ascii ''            </div>\<newline>''
    @ ascii ''        </body>\<newline>''
    @ ascii ''        </html>\<newline>''
    @ ascii ''        ''\<close>

text \<open>
  The HTML body of main.py. The head, the middle and the first pieces of the
  meeting-information block are the texts of working\_server.py. A \<open>MeetingInfo\<close> object
  is always true, so \<open>if meeting_info\<close> asks whether it is present.
\<close>

definition meta_info_main :: "MeetingInfo option \<Rightarrow> pystr" where
  "meta_info_main meeting_info =
    (case meeting_info of
       None \<Rightarrow> []
     | Some mi \<Rightarrow>
         meta_date @ mi_date mi @ meta_startTime @ mi_startTime mi
         @ meta_duration @ mi_duration mi @ meta_end_main)"

definition date_or_today :: "MeetingInfo option \<Rightarrow> pystr" where
  "date_or_today meeting_info = (case meeting_info of None \<Rightarrow> today | Some mi \<Rightarrow> mi_date mi)"

definition html_content_main :: "pystr \<Rightarrow> MeetingInfo option \<Rightarrow> pystr" where
  "html_content_main summary meeting_info =
    html_head @ meta_info_main meeting_info @ html_middle @ escape_summary summary
    @ html_tail_main @ date_or_today meeting_info @ html_end_main"

text \<open>
  \<open>send_email(email, summary, meeting_info)\<close>: returns \<open>True\<close>, or raises an
  \<open>HTTPException\<close> with status 500 for missing credentials and for every failure of the
  SMTP session.
\<close>

definition send_email_main ::
  "env \<Rightarrow> pystr \<Rightarrow> pystr \<Rightarrow> MeetingInfo option \<Rightarrow> (exn + bool) \<times> outbound list" where
  \<open>send_email_main env email summary meeting_info =
    (if \<not> truthy (GMAIL_USER env) \<or> \<not> truthy (GMAIL_APP_PASSWORD env)
     then (Inl (HTTPException 500
                  (mail_failed_main
                   @ str_exn (str_HTTPException env) (ValueError credentials_missing_main))), [])
     else
       let sender_email = str_of (GMAIL_USER env);
           sender_password = str_of (GMAIL_APP_PASSWORD env);
           session = \<lparr>smtp_server = ascii ''smtp.gmail.com'', smtp_port = 587,
                      login_user = sender_email, login_password = sender_password,
                      message = \<lparr>Subject = subject_prefix @ date_or_today meeting_info,
                                 From = sender_email, To = email,
                                 html = html_content_main summary meeting_info\<rparr>\<rparr>
       in case relay env session of
            None \<Rightarrow> (Inr True, [Smtp session])
          | Some m \<Rightarrow>
              (Inl (HTTPException 500
                      (mail_failed_main @ str_exn (str_HTTPException env) (Exception m))),
               [Smtp session]))\<close>

definition empty_detail_main :: pystr where
  \<open>empty_detail_main = [0xC694, 0xC57D, 0xD560] @ ascii '' '' @ [0xD14D, 0xC2A4, 0xD2B8, 0xAC00] @ ascii '' '' @ [0xBE44, 0xC5B4, 0xC788, 0xC2B5, 0xB2C8, 0xB2E4]\<close>

definition too_short_main :: pystr where
  \<open>too_short_main = [0xD14D, 0xC2A4, 0xD2B8, 0xAC00] @ ascii '' '' @ [0xB108, 0xBB34] @ ascii '' '' @ [0xC9E7, 0xC2B5, 0xB2C8, 0xB2E4]\<close>

text \<open>
  The two handlers that close \<open>summarize_and_email\<close>: \<open>except HTTPException: raise\<close>,
  and \<open>except Exception\<close>, which returns a \<open>SummaryResponse\<close> with \<open>success=False\<close>.
\<close>

definition handlers_main :: "env \<Rightarrow> exn \<Rightarrow> exn + SummaryResponse" where
  "handlers_main env e =
    (if is_HTTPException e then Inl e
     else Inr \<lparr>resp_success = False, resp_summary = None, resp_correctedTranscript = None,
               resp_emailSent = False,
               resp_error = Some (str_exn (str_HTTPException env) e)\<rparr>)"

text \<open>
  \<open>summarize_and_email(request)\<close>: \<open>send_email\<close> is called for every request that has
  a summary, whatever \<open>request.email\<close> is.
\<close>

definition summarize_and_email_main ::
  "env \<Rightarrow> SummaryRequest \<Rightarrow> (exn + SummaryResponse) \<times> outbound list" where
  "summarize_and_email_main env request =
    (if strip (sr_transcript request) = []
     then (handlers_main env (HTTPException 400 empty_detail_main), [])
     else if length (sr_transcript request) < 10
     then (handlers_main env (HTTPException 400 too_short_main), [])
     else
       (case generate_summary_main env (sr_transcript request) (sr_language request) of
          (Inl e, calls) \<Rightarrow> (handlers_main env e, calls)
        | (Inr summary, calls) \<Rightarrow>
            (case send_email_main env (sr_email request) summary (sr_meetingInfo request) of
               (Inl e, sent) \<Rightarrow> (handlers_main env e, calls @ sent)
             | (Inr email_sent, sent) \<Rightarrow>
                 (Inr \<lparr>resp_success = True, resp_summary = Some summary,
                       resp_correctedTranscript = None, resp_emailSent = email_sent,
                       resp_error = None\<rparr>,
                  calls @ sent))))"

section \<open>simple\_http\_server.py\<close>

definition english_prompt_http :: pystr where
  \<open>english_prompt_http = ascii ''Summarize this meeting transcript:''\<close>

definition system_content_http :: pystr where
  \<open>system_content_http = ascii ''You are a professional meeting summarizer.''\<close>

text \<open>
  \<open>call_openai_api(transcript, language)\<close>: a missing key and a status other than 200
  raise a plain \<open>Exception\<close>.
\<close>

definition call_openai_api_http ::
  "env \<Rightarrow> pystr \<Rightarrow> pystr option \<Rightarrow> (exn + pystr) \<times> outbound list" where
  \<open>call_openai_api_http env transcript language =
    (if \<not> truthy (OPENAI_API_KEY env) then (Inl (Exception key_missing_detail), [])
     else
       let openai_api_key = str_of (OPENAI_API_KEY env);
           prompt = (if language = Some (ascii ''korean'') then get_korean_prompt
                     else english_prompt_http);
           payload = \<lparr>model = ascii ''gpt-4o'',
                      messages = [\<lparr>role = ascii ''system'', content = system_content_http\<rparr>,
                                  \<lparr>role = ascii ''user'',
                                   content = prompt @ ascii ''\<newline>\<newline>'' @ transcript\<rparr>],
                      max_tokens = 2000,
                      temperature = 0.3\<rparr>;
           call = \<lparr>url = OPENAI_API_URL, headers = request_headers openai_api_key,
                   json = payload, timeout = 60\<rparr>
       in case provider env call of
            PostRaises m \<Rightarrow> (Inl (RequestException m), [Post call])
          | PostReturns response \<Rightarrow>
              if status_code response = 200 then
                (case choices_content response of
                   Inl f \<Rightarrow> (Inl (raised f), [Post call])
                 | Inr completion \<Rightarrow> (Inr completion, [Post call]))
              else (Inl (Exception (api_error_detail @ response_text response)), [Post call]))\<close>

definition html_head_http :: pystr where
  \<open>html_head_http =
    ascii ''\<newline>''
    @ ascii ''        <html>\<newline>''
    @ ascii ''        <body>\<newline>''
    @ ascii ''            <h1>'' @ [0x1F3AF] @ ascii '' AI '' @ [0xD68C, 0xC758] @ ascii '' '' @ [0xC694, 0xC57D] @ ascii '' '' @ [0xACB0, 0xACFC] @ ascii ''</h1>\<newline>''
    @ ascii ''            <div style="white-space: pre-wrap; font-family: monospace;">\<newline>''\<close>

definition html_tail_http :: pystr where
  \<open>html_tail_http =
    ascii ''\<newline>''
    @ ascii ''            </div>\<newline>''
    @ ascii ''            <hr>\<newline>''
    @ ascii ''            <p style="font-size: 12px; color: #666;">\<newline>''
    @ ascii ''                '' @ [0xC774] @ ascii '' '' @ [0xC694, 0xC57D, 0xC740] @ ascii '' AI(OpenAI GPT-4)'' @ [0xB97C] @ ascii '' '' @ [0xD1B5, 0xD574] @ ascii '' '' @ [0xC790, 0xB3D9] @ ascii '' '' @ [0xC0DD, 0xC131, 0xB418, 0xC5C8, 0xC2B5, 0xB2C8, 0xB2E4] @ ascii ''.\<newline>''
    @ ascii ''            </p>\<newline>''
    @ ascii ''        </body>\<newline>''
    @ ascii ''        </html>\<newline>''
    @ ascii ''        ''\<close>

text \<open>The HTML body of this variant: \<open>{summary}\<close> is embedded as it is.\<close>

definition html_content_http :: "pystr \<Rightarrow> pystr" where
  "html_content_http summary = html_head_http @ summary @ html_tail_http"

definition send_email_http ::
  "env \<Rightarrow> pystr \<Rightarrow> pystr \<Rightarrow> pydict option \<Rightarrow> bool \<times> outbound list" where
  \<open>send_email_http env email summary meeting_info =
    (if \<not> truthy (GMAIL_USER env) \<or> \<not> truthy (GMAIL_APP_PASSWORD env) then (False, [])
     else
       let sender_email = str_of (GMAIL_USER env);
           sender_password = str_of (GMAIL_APP_PASSWORD env);
           session = \<lparr>smtp_server = ascii ''smtp.gmail.com'', smtp_port = 587,
                      login_user = sender_email, login_password = sender_password,
                      message = \<lparr>Subject = subject_ws meeting_info, From = sender_email,
                                 To = email, html = html_content_http summary\<rparr>\<rparr>
       in case relay env session of
            None \<Rightarrow> (True, [Smtp session])
          | Some e \<Rightarrow> (False, [Smtp session]))\<close>

text \<open>
  What \<open>do_POST\<close> writes: the status given to \<open>_set_headers\<close> and the JSON object
  written to \<open>wfile\<close>.
\<close>

record http_response =
  http_status :: nat
  http_body :: jdict

text \<open>
  \<open>do_POST\<close>. Its input is the request path and the outcome of reading the body and
  decoding it with \<open>json.loads\<close>: the exception raised, or the dictionary. Every
  exception inside the \<open>try\<close> gives status 500; the validation writes its own response
  with status 400 and returns.
\<close>

definition do_POST ::
  "env \<Rightarrow> pystr \<Rightarrow> exn + request \<Rightarrow> http_response \<times> outbound list" where
  \<open>do_POST env path decoded =
    (if path = ascii ''/api/summarize'' then
       (case decoded of
          Inl e \<Rightarrow>
            (\<lparr>http_status = 500,
              http_body = [(''success'', JBool False),
                           (''error'', JStr (str_exn (str_HTTPException env) e))]\<rparr>, [])
        | Inr request_data \<Rightarrow>
            let transcript = dict_get (req_transcript request_data) [];
                language = dict_get (req_language request_data) (ascii ''korean'');
                email = dict_get (req_email request_data) [];
                meeting_info = dict_get (req_meetingInfo request_data) []
            in if \<not> truthy transcript
                  \<or> length (str_of transcript) < 10
               then (\<lparr>http_status = 400, http_body = [(''error'', JStr too_short_detail)]\<rparr>, [])
               else
                 (case call_openai_api_http env (str_of transcript)
                         language of
                    (Inl e, calls) \<Rightarrow>
                      (\<lparr>http_status = 500,
                        http_body = [(''success'', JBool False),
                                     (''error'', JStr (str_exn (str_HTTPException env) e))]\<rparr>,
                       calls)
                  | (Inr summary, calls) \<Rightarrow>
                      if truthy email \<and> strip (str_of email) \<noteq> []
                      then
                        (case send_email_http env
                                (strip (str_of email))
                                summary meeting_info of
                           (email_sent, sent) \<Rightarrow>
                             (\<lparr>http_status = 200, http_body = success_body summary email_sent\<rparr>,
                              calls @ sent))
                      else (\<lparr>http_status = 200, http_body = success_body summary False\<rparr>,
                            calls)))
     else (\<lparr>http_status = 404, http_body = [(''error'', JStr (ascii ''Not Found''))]\<rparr>, []))\<close>

section \<open>clean\_server.py\<close>

definition html_head_clean :: pystr where
  \<open>html_head_clean =
    ascii ''\<newline>''
    @ ascii ''        <!DOCTYPE html>\<newline>''
    @ ascii ''        <html>\<newline>''
    @ ascii ''        <head>\<newline>''
    @ ascii ''            <meta charset="utf-8">\<newline>''
    @ ascii ''            <style>\<newline>''
    @ ascii ''                body { font-family: -apple-system, BlinkMacSystemFont, 'Segoe UI', Roboto, sans-serif; line-height: 1.6; color: #333; }\<newline>''
    @ ascii ''                .content { padding: 20px; }\<newline>''
    @ ascii ''                .summary { background: #fff; border: 1px solid #e9ecef; border-radius: 8px; padding: 20px; }\<newline>''
    @ ascii ''            </style>\<newline>''
    @ ascii ''        </head>\<newline>''
    @ ascii ''        <body>\<newline>''
    @ ascii ''            <div class="content">\<newline>''
    @ ascii ''                <h1>'' @ [0x1F3AF] @ ascii '' AI '' @ [0xD68C, 0xC758] @ ascii '' '' @ [0xC694, 0xC57D] @ ascii '' '' @ [0xACB0, 0xACFC] @ ascii ''</h1>\<newline>''
    @ ascii ''                ''\<close>

definition html_middle_clean :: pystr where
  \<open>html_middle_clean =
    ascii ''\<newline>''
    @ ascii ''                <div class="summary">\<newline>''
    @ ascii ''                    <div style="white-space: pre-wrap; font-family: inherit;">\<newline>''\<close>

definition html_tail_clean :: pystr where
  \<open>html_tail_clean =
    ascii ''\<newline>''
    @ ascii ''                    </div>\<newline>''
    @ ascii ''                </div>\<newline>''
    @ ascii ''                <hr>\<newline>''
    @ ascii ''                <p style="font-size: 12px; color: #666;">\<newline>''
    @ ascii ''                    '' @ [0xC774] @ ascii '' '' @ [0xC694, 0xC57D, 0xC740] @ ascii '' AI(OpenAI GPT-4)'' @ [0xB97C] @ ascii '' '' @ [0xD1B5, 0xD574] @ ascii '' '' @ [0xC790, 0xB3D9] @ ascii '' '' @ [0xC0DD, 0xC131, 0xB418, 0xC5C8, 0xC2B5, 0xB2C8, 0xB2E4] @ ascii ''.\<newline>''
    @ ascii ''                </p>\<newline>''
    @ ascii ''            </div>\<newline>''
    @ ascii ''        </body>\<newline>''
    @ ascii ''        </html>\<newline>''
    @ ascii ''        ''\<close>

definition date_open_clean :: pystr where
  \<open>date_open_clean = ascii ''<p><strong>'' @ [0xB0A0, 0xC9DC] @ ascii '':</strong> ''\<close>

text \<open>
  The HTML body of clean\_server.py: the date line is rendered only when
  \<open>meeting_info and "date" in meeting_info\<close>, so no lookup can fail.
\<close>

definition html_content_clean :: "pystr \<Rightarrow> pydict option \<Rightarrow> pystr" where
  \<open>html_content_clean summary meeting_info =
    html_head_clean
    @ (if truthy_dict meeting_info \<and> has_key (dict_of meeting_info) (ascii ''date'')
       then date_open_clean @ get_default (dict_of meeting_info) (ascii ''date'') []
            @ ascii ''</p>''
       else [])
    @ html_middle_clean @ escape_summary summary @ html_tail_clean\<close>

definition send_email_clean ::
  "env \<Rightarrow> pystr \<Rightarrow> pystr \<Rightarrow> pydict option \<Rightarrow> bool \<times> outbound list" where
  \<open>send_email_clean env email summary meeting_info =
    (if \<not> truthy (GMAIL_USER env) \<or> \<not> truthy (GMAIL_APP_PASSWORD env) then (False, [])
     else
       let sender_email = str_of (GMAIL_USER env);
           sender_password = str_of (GMAIL_APP_PASSWORD env);
           session = \<lparr>smtp_server = ascii ''smtp.gmail.com'', smtp_port = 587,
                      login_user = sender_email, login_password = sender_password,
                      message = \<lparr>Subject = subject_ws meeting_info, From = sender_email,
                                 To = email, html = html_content_clean summary meeting_info\<rparr>\<rparr>
       in case relay env session of
            None \<Rightarrow> (True, [Smtp session])
          | Some e \<Rightarrow> (False, [Smtp session]))\<close>

section \<open>Reading the outbound calls and the responses\<close>

fun posts :: "outbound list \<Rightarrow> http_post list" where
  "posts [] = []"
| "posts (Post p # calls) = p # posts calls"
| "posts (Smtp s # calls) = posts calls"

fun smtp_sessions :: "outbound list \<Rightarrow> smtp_session list" where
  "smtp_sessions [] = []"
| "smtp_sessions (Post p # calls) = smtp_sessions calls"
| "smtp_sessions (Smtp s # calls) = s # smtp_sessions calls"

text \<open>The contents of the messages of role \<open>user\<close> in a provider request.\<close>

fun user_contents :: "chat_message list \<Rightarrow> pystr list" where
  \<open>user_contents [] = []\<close>
| \<open>user_contents (m # ms) =
    (if role m = ascii ''user'' then content m # user_contents ms else user_contents ms)\<close>

section \<open>Sample inputs\<close>

text \<open>
  The transcript of the end-to-end scenarios, a provider that answers every request with
  status 200 and one completion, a relay that accepts every session, and a relay that
  refuses every session.
\<close>

definition sample_transcript :: pystr where
  \<open>sample_transcript =
    ascii ''Alice and Bob discussed the Q3 roadmap and agreed to ship by Friday.''\<close>

definition sample_summary :: pystr where
  \<open>sample_summary = ascii ''## Summary\<newline>Ship by Friday.''\<close>

definition answering_provider :: "http_post \<Rightarrow> post_result" where
  \<open>answering_provider call =
    PostReturns \<lparr>status_code = 200, response_text = ascii ''{...}'', http_error = [],
                 choices_content = Inr sample_summary\<rparr>\<close>

definition accepting_relay :: "smtp_session \<Rightarrow> pystr option" where
  "accepting_relay session = None"

definition refusing_relay :: "smtp_session \<Rightarrow> pystr option" where
  \<open>refusing_relay session = Some (ascii ''Connection refused'')\<close>

definition plain_str :: "nat \<Rightarrow> pystr \<Rightarrow> pystr" where
  "plain_str status detail = detail"

definition sample_env :: env where
  \<open>sample_env =
    \<lparr>OPENAI_API_KEY = Some (ascii ''sk-test''), GMAIL_USER = Some (ascii ''bot@example.com''),
     GMAIL_APP_PASSWORD = Some (ascii ''app-password''), provider = answering_provider,
     relay = accepting_relay, str_HTTPException = plain_str\<rparr>\<close>

definition french_request :: request where
  \<open>french_request =
    \<lparr>req_transcript = Val sample_transcript, req_language = Val (ascii ''french''),
     req_email = Val [], req_meetingInfo = Null\<rparr>\<close>

definition english_request :: request where
  \<open>english_request =
    \<lparr>req_transcript = Val sample_transcript, req_language = Val (ascii ''english''),
     req_email = Val [], req_meetingInfo = Null\<rparr>\<close>

text \<open>
  A value that stands for no recipient: \<open>None\<close>, the empty string, or a string that is
  blank after trimming.
\<close>

definition blank :: "pystr option \<Rightarrow> bool" where
  "blank v = (case v of None \<Rightarrow> True | Some s \<Rightarrow> strip s = [])"

definition padded_transcript :: pystr where
  \<open>padded_transcript = ascii ''a         ''\<close>

definition padded_request :: request where
  "padded_request =
    \<lparr>req_transcript = Val padded_transcript, req_language = Absent,
     req_email = Absent, req_meetingInfo = Absent\<rparr>"

definition padded_request_main :: SummaryRequest where
  \<open>padded_request_main =
    \<lparr>sr_transcript = padded_transcript, sr_language = ascii ''korean'',
     sr_email = ascii ''pm@example.com'', sr_meetingInfo = None, sr_prompt = None\<rparr>\<close>

definition short_request :: request where
  \<open>short_request =
    \<lparr>req_transcript = Val (ascii ''too short''), req_language = Val (ascii ''korean''),
     req_email = Val (ascii ''pm@example.com''), req_meetingInfo = Absent\<rparr>\<close>

definition short_request_main :: SummaryRequest where
  \<open>short_request_main =
    \<lparr>sr_transcript = ascii ''too short'', sr_language = ascii ''korean'',
     sr_email = ascii ''pm@example.com'', sr_meetingInfo = None, sr_prompt = None\<rparr>\<close>

definition sample_request_main :: SummaryRequest where
  \<open>sample_request_main =
    \<lparr>sr_transcript = sample_transcript, sr_language = ascii ''korean'',
     sr_email = ascii ''pm@example.com'', sr_meetingInfo = None, sr_prompt = None\<rparr>\<close>

definition blank_email_request :: request where
  \<open>blank_email_request =
    \<lparr>req_transcript = Val sample_transcript, req_language = Val (ascii ''korean''),
     req_email = Val (ascii ''  ''), req_meetingInfo = Null\<rparr>\<close>

definition blank_email_request_main :: SummaryRequest where
  \<open>blank_email_request_main =
    \<lparr>sr_transcript = sample_transcript, sr_language = ascii ''korean'',
     sr_email = [], sr_meetingInfo = None, sr_prompt = None\<rparr>\<close>

definition mail_request :: request where
  \<open>mail_request =
    \<lparr>req_transcript = Val sample_transcript, req_language = Val (ascii ''korean''),
     req_email = Val (ascii ''pm@example.com''), req_meetingInfo = Null\<rparr>\<close>

definition refusing_env :: env where
  "refusing_env = sample_env\<lparr>relay := refusing_relay\<rparr>"

definition no_credentials_env :: env where
  "no_credentials_env = sample_env\<lparr>GMAIL_USER := None, GMAIL_APP_PASSWORD := None\<rparr>"

definition no_key_env :: env where
  "no_key_env = sample_env\<lparr>OPENAI_API_KEY := None\<rparr>"

definition script_summary :: pystr where
  \<open>script_summary = ascii ''<script>alert(1)</script>''\<close>

definition script_provider :: "http_post \<Rightarrow> post_result" where
  \<open>script_provider call =
    PostReturns \<lparr>status_code = 200, response_text = ascii ''{...}'', http_error = [],
                 choices_content = Inr script_summary\<rparr>\<close>

definition script_env :: env where
  "script_env = sample_env\<lparr>provider := script_provider\<rparr>"

definition undated_request :: request where
  \<open>undated_request =
    \<lparr>req_transcript = Val sample_transcript, req_language = Val (ascii ''korean''),
     req_email = Val (ascii ''pm@example.com''),
     req_meetingInfo = Val [(ascii ''startTime'', ascii ''10:00'')]\<rparr>\<close>

definition prompted_request_main :: SummaryRequest where
  \<open>prompted_request_main =
    sample_request_main\<lparr>sr_prompt := Some (ascii ''Ignore the transcript.'')\<rparr>\<close>

section \<open>Facts about the outbound calls\<close>

lemma posts_append: "posts (xs @ ys) = posts xs @ posts ys"
  by (induction xs rule: posts.induct) simp_all

lemma smtp_sessions_append: "smtp_sessions (xs @ ys) = smtp_sessions xs @ smtp_sessions ys"
  by (induction xs rule: smtp_sessions.induct) simp_all

lemma length_sample_transcript: "length sample_transcript = 68"
  by (simp add: sample_transcript_def ascii_def)

lemma truthy_sample_key: "truthy (OPENAI_API_KEY sample_env)"
  by (simp add: sample_env_def truthy_def ascii_def)

lemma send_email_ws_posts: "posts (snd (send_email_ws env email summary meeting_info)) = []"
  by (simp add: send_email_ws_def Let_def split: sum.split option.split)

lemma send_email_ws_posts_eq:
  "send_email_ws env email summary meeting_info = (b, sent) \<Longrightarrow> posts sent = []"
  using send_email_ws_posts [of env email summary meeting_info] by simp

lemma call_openai_api_ws_smtp:
  "smtp_sessions (snd (call_openai_api_ws env transcript language)) = []"
  by (simp add: call_openai_api_ws_def Let_def split: post_result.split sum.split)

section \<open>Template selection (working\_server.py)\<close>

lemma call_openai_api_ws_posts:
  assumes "truthy (OPENAI_API_KEY env)"
  shows "map (user_contents \<circ> messages \<circ> json)
           (posts (snd (call_openai_api_ws env transcript language))) =
         [[(if language = Some (ascii ''korean'') then get_korean_prompt else get_english_prompt)
           @ ascii ''\<newline>\<newline>'' @ transcript]]"
  using assms
  by (simp add: call_openai_api_ws_def Let_def ascii_def split: post_result.split sum.split)

lemma user_content_ws:
  assumes "req_transcript request = Val transcript" and "10 \<le> length transcript"
    and "truthy (OPENAI_API_KEY env)"
  shows "map (user_contents \<circ> messages \<circ> json)
           (posts (snd (summarize_and_email_ws env request))) =
         [[(if req_language request = Absent \<or> req_language request = Val (ascii ''korean'')
            then get_korean_prompt else get_english_prompt)
           @ ascii ''\<newline>\<newline>'' @ transcript]]"
proof -
  let ?language = "dict_get (req_language request) (ascii ''korean'')"
  have lang: "(?language = Some (ascii ''korean'')) \<longleftrightarrow>
              (req_language request = Absent \<or> req_language request = Val (ascii ''korean''))"
    by (cases "req_language request") simp_all
  have nonempty: "transcript \<noteq> []" "\<not> length transcript < 10"
    using assms(2) by auto
  obtain r calls where call: "call_openai_api_ws env transcript ?language = (r, calls)"
    by (cases "call_openai_api_ws env transcript ?language")
  have calls: "map (user_contents \<circ> messages \<circ> json) (posts calls) =
           [[(if ?language = Some (ascii ''korean'') then get_korean_prompt else get_english_prompt)
              @ ascii ''\<newline>\<newline>'' @ transcript]]"
    using call_openai_api_ws_posts [OF assms(3), of transcript ?language] call by simp
  have "posts (snd (summarize_and_email_ws env request)) = posts calls"
    using assms(1) nonempty call
    by (cases r)
       (auto simp add: summarize_and_email_ws_def Let_def posts_append
             split: prod.split dest: send_email_ws_posts_eq)
  then show ?thesis using calls lang by simp
qed

lemma korean_not_prefix_of_english:
  "\<not> prefix get_korean_prompt (get_english_prompt @ rest)"
  by (simp add: get_korean_prompt_def get_english_prompt_def ascii_def)

text \<open>
  C2, as the code selects the template. A request that passes the validation, with the
  provider key configured, makes exactly one provider request with exactly one user
  message. That message is the Korean template followed by the transcript when
  \<open>language\<close> is \<open>"korean"\<close> or the key is absent (the default is \<open>"korean"\<close>), and the
  English template followed by the transcript for every other value: \<open>"english"\<close>, but
  also \<open>"french"\<close> or \<open>null\<close>.
\<close>

theorem template_by_language_ws:
  assumes "req_transcript request = Val transcript" and "10 \<le> length transcript"
    and "truthy (OPENAI_API_KEY env)"
  shows "map (user_contents \<circ> messages \<circ> json)
           (posts (snd (summarize_and_email_ws env request))) =
         [[(if req_language request = Absent \<or> req_language request = Val (ascii ''korean'')
            then get_korean_prompt else get_english_prompt)
           @ ascii ''\<newline>\<newline>'' @ transcript]]"
  using assms by (rule user_content_ws)

theorem template_by_language_ws_witness:
  \<open>req_transcript english_request = Val sample_transcript \<and> 10 \<le> length sample_transcript \<and>
   truthy (OPENAI_API_KEY sample_env) \<and>
   map (user_contents \<circ> messages \<circ> json)
     (posts (snd (summarize_and_email_ws sample_env english_request))) =
   [[get_english_prompt @ ascii ''\<newline>\<newline>'' @ sample_transcript]]\<close>
  using template_by_language_ws [of english_request sample_transcript sample_env]
  by (simp add: english_request_def length_sample_transcript truthy_sample_key ascii_def)

text \<open>
  The claim as stated fails for \<open>language = "french"\<close>: the user message starts with the
  English template, and does not start with the Korean one.
\<close>

theorem french_selects_english_template:
  \<open>map (user_contents \<circ> messages \<circ> json)
     (posts (snd (summarize_and_email_ws sample_env french_request))) =
   [[get_english_prompt @ ascii ''\<newline>\<newline>'' @ sample_transcript]] \<and>
   \<not> prefix get_korean_prompt (get_english_prompt @ ascii ''\<newline>\<newline>'' @ sample_transcript)\<close>
  using user_content_ws [of french_request sample_transcript sample_env]
  by (simp add: french_request_def length_sample_transcript truthy_sample_key ascii_def
        korean_not_prefix_of_english)

section \<open>Validation of the transcript\<close>

lemma strip_Nil: "strip [] = []"
  by (simp add: strip_def)

lemma strip_nonempty: "strip s \<noteq> [] \<Longrightarrow> s \<noteq> []"
  by (auto simp: strip_def)

lemma reraise_ws_HTTPException: "reraise_ws env (HTTPException c d) = HTTPException c d"
  by (simp add: reraise_ws_def)

lemma handlers_main_HTTPException:
  "handlers_main env (HTTPException c d) = Inl (HTTPException c d)"
  by (simp add: handlers_main_def)

lemma short_ws:
  assumes "dict_get (req_transcript request) [] = Some t" and "length t < 10"
  shows "summarize_and_email_ws env request = (Inl (HTTPException 400 too_short_detail), [])"
  using assms by (simp add: summarize_and_email_ws_def reraise_ws_HTTPException)

lemma short_main:
  assumes "length (sr_transcript r) < 10 \<or> strip (sr_transcript r) = []"
  shows "summarize_and_email_main env r =
           (Inl (HTTPException 400
                  (if strip (sr_transcript r) = [] then empty_detail_main else too_short_main)),
            [])"
  using assms by (auto simp add: summarize_and_email_main_def handlers_main_HTTPException)

lemma strip_padded: \<open>strip padded_transcript = ascii ''a''\<close>
  by (simp add: padded_transcript_def strip_def ascii_def isspace_def)

lemma strip_too_short: \<open>strip (ascii ''too short'') = ascii ''too short''\<close>
  by (simp add: strip_def ascii_def isspace_def)

text \<open>
  C1, as the code validates. The length that is compared with 10 is the length of the
  transcript as received, not of the trimmed transcript. In working\_server.py a transcript
  (the empty string when the key is absent) of fewer than 10 characters is answered with
  \<open>HTTPException(400)\<close> and no outbound call is made. In main.py the same holds, and a
  transcript that is blank after trimming is rejected as well, whatever its length.
\<close>

theorem short_transcript_rejected:
  "(dict_get (req_transcript request) [] = Some t \<and> length t < 10 \<longrightarrow>
      summarize_and_email_ws env request = (Inl (HTTPException 400 too_short_detail), [])) \<and>
   (length (sr_transcript r) < 10 \<or> strip (sr_transcript r) = [] \<longrightarrow>
      summarize_and_email_main env r =
        (Inl (HTTPException 400
               (if strip (sr_transcript r) = [] then empty_detail_main else too_short_main)),
         []))"
  using short_ws [of request t env] short_main [of r env] by blast

theorem short_transcript_rejected_witness:
  \<open>dict_get (req_transcript short_request) [] = Some (ascii ''too short'') \<and>
   length (ascii ''too short'') < 10 \<and>
   summarize_and_email_ws sample_env short_request =
     (Inl (HTTPException 400 too_short_detail), []) \<and>
   length (sr_transcript short_request_main) < 10 \<and>
   summarize_and_email_main sample_env short_request_main =
     (Inl (HTTPException 400 too_short_main), [])\<close>
  using short_transcript_rejected
          [of short_request \<open>ascii ''too short''\<close> sample_env short_request_main]
  by (simp add: short_request_def short_request_main_def strip_too_short)
     (simp add: ascii_def)

text \<open>
  The claim as stated fails for a transcript of one letter followed by nine spaces: its
  trimmed length is 1, its length is 10, and both variants call the provider.
\<close>

theorem padded_transcript_reaches_provider:
  "length (strip padded_transcript) = 1 \<and>
   fst (summarize_and_email_ws sample_env padded_request) =
     Inr (success_body sample_summary False) \<and>
   length (posts (snd (summarize_and_email_ws sample_env padded_request))) = 1 \<and>
   length (posts (snd (summarize_and_email_main sample_env padded_request_main))) = 1"
proof -
  have padded: "strip padded_transcript \<noteq> []" "length padded_transcript = 10"
    by (simp_all add: strip_padded) (simp_all add: padded_transcript_def ascii_def)
  have ws: "summarize_and_email_ws sample_env padded_request =
              (Inr (success_body sample_summary False),
               snd (call_openai_api_ws sample_env padded_transcript (Some (ascii ''korean''))))"
    using padded
    by (auto simp add: summarize_and_email_ws_def padded_request_def call_openai_api_ws_def
          sample_env_def answering_provider_def truthy_def Let_def ascii_def)
  have call: "length (posts (snd (call_openai_api_ws sample_env padded_transcript language))) = 1"
    for language
    by (simp add: call_openai_api_ws_def sample_env_def answering_provider_def truthy_def
          Let_def ascii_def)
  have main: "length (posts (snd (summarize_and_email_main sample_env padded_request_main))) = 1"
    using padded
    by (simp add: summarize_and_email_main_def padded_request_main_def
          generate_summary_main_def call_openai_api_main_def send_email_main_def
          sample_env_def answering_provider_def accepting_relay_def truthy_def Let_def
          posts_append ascii_def)
  show ?thesis
    using ws call main by (simp add: strip_padded) (simp add: ascii_def)
qed

section \<open>The handlers after the validation\<close>

lemma blank_iff: "blank v \<longleftrightarrow> \<not> (truthy v \<and> strip (str_of v) \<noteq> [])"
  by (cases v) (auto simp add: blank_def truthy_def str_of_def strip_Nil)

lemma ws_valid:
  assumes "dict_get (req_transcript request) [] = Some t" and "10 \<le> length t"
  shows "summarize_and_email_ws env request =
    (case call_openai_api_ws env t (dict_get (req_language request) (ascii ''korean'')) of
       (Inl e, calls) \<Rightarrow> (Inl (reraise_ws env e), calls)
     | (Inr summary, calls) \<Rightarrow>
        if blank (dict_get (req_email request) []) then (Inr (success_body summary False), calls)
        else (case send_email_ws env (strip (str_of (dict_get (req_email request) []))) summary
                     (dict_get (req_meetingInfo request) []) of
                (email_sent, sent) \<Rightarrow> (Inr (success_body summary email_sent), calls @ sent)))"
proof -
  have t: "t \<noteq> []" "\<not> length t < 10" using assms(2) by auto
  show ?thesis
    unfolding summarize_and_email_ws_def Let_def blank_iff
    using t assms(1) by (auto split: prod.split sum.split)
qed





lemma generate_summary_main_error:
  "generate_summary_main env transcript language = (Inl e, calls) \<Longrightarrow> \<exists>d. e = HTTPException 500 d"
  by (auto simp add: generate_summary_main_def Let_def split: prod.splits sum.splits)

lemma send_email_main_error:
  "send_email_main env email summary meeting_info = (Inl e, sent) \<Longrightarrow> \<exists>d. e = HTTPException 500 d"
  by (auto simp add: send_email_main_def Let_def split: option.splits if_splits)

lemma send_email_main_True:
  "send_email_main env email summary meeting_info = (Inr b, sent) \<Longrightarrow>
     b \<and> truthy (GMAIL_USER env) \<and> truthy (GMAIL_APP_PASSWORD env) \<and>
     (\<exists>session. sent = [Smtp session] \<and> relay env session = None \<and> To (message session) = email)"
  by (auto simp add: send_email_main_def Let_def split: option.splits if_splits)


lemma main_valid:
  assumes "strip (sr_transcript r) \<noteq> []" and "10 \<le> length (sr_transcript r)"
  shows "summarize_and_email_main env r =
    (case generate_summary_main env (sr_transcript r) (sr_language r) of
          (Inl e, calls) \<Rightarrow> (Inl e, calls)
        | (Inr summary, calls) \<Rightarrow>
            (case send_email_main env (sr_email r) summary (sr_meetingInfo r) of
               (Inl e, sent) \<Rightarrow> (Inl e, calls @ sent)
             | (Inr email_sent, sent) \<Rightarrow>
                 (Inr \<lparr>resp_success = True, resp_summary = Some summary,
                       resp_correctedTranscript = None, resp_emailSent = True,
                       resp_error = None\<rparr>,
                  calls @ sent)))"
proof -
  have "\<not> length (sr_transcript r) < 10" using assms(2) by simp
  then show ?thesis
    using assms(1)
    by (auto simp add: summarize_and_email_main_def handlers_main_HTTPException
          split: prod.splits sum.splits
          dest!: generate_summary_main_error send_email_main_error send_email_main_True)
qed

lemma call_ws_sample:
  "OPENAI_API_KEY env = Some (ascii ''sk-test'') \<Longrightarrow> provider env = answering_provider \<Longrightarrow>
   fst (call_openai_api_ws env transcript language) = Inr sample_summary"
  by (simp add: call_openai_api_ws_def answering_provider_def truthy_def Let_def ascii_def)


lemma sample_env_simps:
  "OPENAI_API_KEY sample_env = Some (ascii ''sk-test'')" "provider sample_env = answering_provider"
  "relay sample_env = accepting_relay" "truthy (GMAIL_USER sample_env)" "truthy (GMAIL_APP_PASSWORD sample_env)"
  by (simp_all add: sample_env_def truthy_def ascii_def)

lemma strip_sample: "strip sample_transcript \<noteq> []"
  by (simp add: sample_transcript_def strip_def ascii_def isspace_def)



lemma env_simps:
  "OPENAI_API_KEY refusing_env = Some (ascii ''sk-test'')" "provider refusing_env = answering_provider"
  "relay refusing_env = refusing_relay" "truthy (GMAIL_USER refusing_env)"
  "truthy (GMAIL_APP_PASSWORD refusing_env)"
  "OPENAI_API_KEY no_credentials_env = Some (ascii ''sk-test'')"
  "provider no_credentials_env = answering_provider"
  "\<not> truthy (GMAIL_USER no_credentials_env)"
  "\<not> truthy (OPENAI_API_KEY no_key_env)"
  by (simp_all add: refusing_env_def no_credentials_env_def no_key_env_def sample_env_def
        truthy_def ascii_def)

lemma blank_samples:
  "blank (dict_get (req_email blank_email_request) [])"
  "blank (Some (sr_email blank_email_request_main))"
  "\<not> blank (dict_get (req_email mail_request) [])"
  by (simp_all add: blank_def blank_email_request_def blank_email_request_main_def
        mail_request_def strip_def ascii_def isspace_def)









lemma missing_key_ws:
  assumes "\<not> truthy (OPENAI_API_KEY env)"
  shows "summarize_and_email_ws env request =
    (Inl (case dict_get (req_transcript request) [] of
            None \<Rightarrow> HTTPException 500
                     (failed_detail @ ascii ''object of type 'NoneType' has no len()'')
          | Some t \<Rightarrow> if length t < 10 then HTTPException 400 too_short_detail
                      else HTTPException 500 key_missing_detail), [])"
proof (cases "dict_get (req_transcript request) []")
  case None
  then show ?thesis by (simp add: summarize_and_email_ws_def reraise_ws_def)
next
  case (Some t)
  show ?thesis
  proof (cases "length t < 10")
    case True
    then show ?thesis using Some short_ws [of request t env] by simp
  next
    case False
    then have "10 \<le> length t" by simp
    then show ?thesis
      using Some assms False
      by (simp add: ws_valid [OF Some] call_openai_api_ws_def reraise_ws_def)
  qed
qed

lemma missing_key_main:
  assumes "\<not> truthy (OPENAI_API_KEY env)"
  shows "summarize_and_email_main env r =
    (Inl (if strip (sr_transcript r) = [] then HTTPException 400 empty_detail_main
          else if length (sr_transcript r) < 10 then HTTPException 400 too_short_main
          else HTTPException 500 (summary_failed_main @ key_missing_main)), [])"
proof (cases "length (sr_transcript r) < 10 \<or> strip (sr_transcript r) = []")
  case True
  then show ?thesis using short_main [of r env] by auto
next
  case False
  then have valid: "strip (sr_transcript r) \<noteq> []" "10 \<le> length (sr_transcript r)" by auto
  show ?thesis
    using assms False
    by (simp add: main_valid [OF valid] generate_summary_main_def call_openai_api_main_def)
qed



lemma mail_request_simps:
  "dict_get (req_meetingInfo mail_request) [] = None"
  "dict_get (req_language mail_request) (ascii ''korean'') = Some (ascii ''korean'')"
  by (simp_all add: mail_request_def)

section \<open>A request without a recipient\<close>

lemma sample_requests:
  "dict_get (req_transcript blank_email_request) [] = Some sample_transcript"
  "dict_get (req_transcript mail_request) [] = Some sample_transcript"
  "sr_transcript blank_email_request_main = sample_transcript"
  "sr_transcript sample_request_main = sample_transcript"
  "sr_email blank_email_request_main = []"
  by (simp_all add: blank_email_request_def mail_request_def blank_email_request_main_def
        sample_request_main_def)




section \<open>A mail dispatch that fails\<close>




section \<open>A missing provider key\<close>

text \<open>
  C5, as the code orders its checks. While the provider key is missing (unset or empty),
  every call of \<open>summarize_and_email\<close> fails and makes no outbound call at all. The key is
  read only after the validation, so the failure of a request that does not pass the
  validation is the validation's own (status 400); a request that passes it fails with
  status 500 and the message about the key. (A \<open>null\<close> transcript fails in
  working\_server.py with status 500 before the validation.)
\<close>

theorem missing_key_no_outbound_call:
  "\<not> truthy (OPENAI_API_KEY env) \<longrightarrow>
     summarize_and_email_ws env request =
       (Inl (case dict_get (req_transcript request) [] of
               None \<Rightarrow> HTTPException 500
                        (failed_detail @ ascii ''object of type 'NoneType' has no len()'')
             | Some t \<Rightarrow> if length t < 10 then HTTPException 400 too_short_detail
                         else HTTPException 500 key_missing_detail), []) \<and>
     summarize_and_email_main env r =
       (Inl (if strip (sr_transcript r) = [] then HTTPException 400 empty_detail_main
             else if length (sr_transcript r) < 10 then HTTPException 400 too_short_main
             else HTTPException 500 (summary_failed_main @ key_missing_main)), [])"
  using missing_key_ws [of env request] missing_key_main [of env r] by blast

theorem missing_key_no_outbound_call_witness:
  "\<not> truthy (OPENAI_API_KEY no_key_env) \<and>
   summarize_and_email_ws no_key_env mail_request =
     (Inl (HTTPException 500 key_missing_detail), []) \<and>
   summarize_and_email_main no_key_env sample_request_main =
     (Inl (HTTPException 500 (summary_failed_main @ key_missing_main)), [])"
  using missing_key_no_outbound_call
          [where env = no_key_env and request = mail_request and r = sample_request_main]
  by (simp add: sample_requests env_simps strip_sample length_sample_transcript)

text \<open>
  The claim as stated fails for a request that does not pass the validation: with the key
  missing, a transcript of 9 characters is answered with the client error 400, not with a
  configuration or server error.
\<close>

theorem short_transcript_without_key_is_400:
  "\<not> truthy (OPENAI_API_KEY no_key_env) \<and>
   summarize_and_email_ws no_key_env short_request =
     (Inl (HTTPException 400 too_short_detail), []) \<and>
   summarize_and_email_main no_key_env short_request_main =
     (Inl (HTTPException 400 too_short_main), [])"
  using short_ws [of short_request \<open>ascii ''too short''\<close> no_key_env]
    short_main [of short_request_main no_key_env]
  by (simp add: env_simps short_request_def short_request_main_def strip_too_short)
     (simp add: ascii_def)

section \<open>When \<open>emailSent\<close> is true\<close>




section \<open>Escaping of the summary\<close>

lemma replace_Nil: "replace [] old new = []"
  by (simp add: replace_def)

lemma replace_Cons:
  "replace (c # s) old new = (if c = old then new else [c]) @ replace s old new"
  by (simp add: replace_def)

lemma replace_append: "replace (a @ b) old new = replace a old new @ replace b old new"
  by (simp add: replace_def)

lemma set_replace:
  "set (replace s old new) = (set s - {old}) \<union> (if old \<in> set s then set new else {})"
  by (induction s) (auto simp add: replace_Nil replace_Cons)

lemma escape_summary_append: "escape_summary (a @ b) = escape_summary a @ escape_summary b"
  by (simp add: escape_summary_def replace_append)

lemma escape_summary_no_angle:
  "of_char CHR ''<'' \<notin> set (escape_summary s) \<and> of_char CHR ''>'' \<notin> set (escape_summary s)"
  by (auto simp add: escape_summary_def set_replace ascii_def split: if_splits)

lemma escape_summary_script:
  \<open>escape_summary (a @ ascii ''<script>'' @ b) =
   escape_summary a @ ascii ''&lt;script&gt;'' @ escape_summary b\<close>
proof -
  have \<open>escape_summary (ascii ''<script>'') = ascii ''&lt;script&gt;''\<close>
    by (simp add: escape_summary_def replace_def ascii_def)
  then show ?thesis by (simp add: escape_summary_append)
qed

lemma html_content_main_escaped:
  "html_content_main summary meeting_info =
     (html_head @ meta_info_main meeting_info @ html_middle) @ escape_summary summary
     @ (html_tail_main @ date_or_today meeting_info @ html_end_main)"
  by (simp add: html_content_main_def)

section \<open>The mail body of simple\_http\_server.py\<close>

lemma script_env_simps:
  "OPENAI_API_KEY script_env = Some (ascii ''sk-test'')" "provider script_env = script_provider"
  "relay script_env = accepting_relay" "truthy (GMAIL_USER script_env)"
  "truthy (GMAIL_APP_PASSWORD script_env)" "truthy (OPENAI_API_KEY script_env)"
  by (simp_all add: script_env_def sample_env_def truthy_def ascii_def)

lemma call_http_script:
  "call_openai_api_http script_env transcript language =
     (Inr script_summary, snd (call_openai_api_http script_env transcript language))"
  by (simp add: call_openai_api_http_def script_env_simps script_provider_def Let_def
        truthy_def ascii_def)

lemma call_openai_api_http_smtp:
  "smtp_sessions (snd (call_openai_api_http env transcript language)) = []"
  by (simp add: call_openai_api_http_def Let_def split: post_result.split sum.split)

lemma strip_address: \<open>strip (ascii ''pm@example.com'') = ascii ''pm@example.com''\<close>
  by (simp add: strip_def ascii_def isspace_def)


lemma do_POST_valid:
  assumes "dict_get (req_transcript rd) [] = Some t" and "10 \<le> length t"
  shows "do_POST env (ascii ''/api/summarize'') (Inr rd) =
    (case call_openai_api_http env t (dict_get (req_language rd) (ascii ''korean'')) of
       (Inl e, calls) \<Rightarrow>
         (\<lparr>http_status = 500,
           http_body = [(''success'', JBool False),
                        (''error'', JStr (str_exn (str_HTTPException env) e))]\<rparr>, calls)
     | (Inr summary, calls) \<Rightarrow>
         if blank (dict_get (req_email rd) [])
         then (\<lparr>http_status = 200, http_body = success_body summary False\<rparr>, calls)
         else (case send_email_http env (strip (str_of (dict_get (req_email rd) []))) summary
                      (dict_get (req_meetingInfo rd) []) of
                 (email_sent, sent) \<Rightarrow>
                   (\<lparr>http_status = 200, http_body = success_body summary email_sent\<rparr>,
                    calls @ sent)))"
proof -
  have t: "truthy (Some t)" "\<not> length t < 10" using assms(2) by (auto simp add: truthy_def)
  show ?thesis
    unfolding do_POST_def Let_def blank_iff
    using t assms(1) by (auto simp add: str_of_def split: prod.split sum.split)
qed

lemma do_POST_short:
  assumes "dict_get (req_transcript rd) [] = None \<or>
           (\<exists>t. dict_get (req_transcript rd) [] = Some t \<and> length t < 10)"
  shows "do_POST env (ascii ''/api/summarize'') (Inr rd) =
           (\<lparr>http_status = 400, http_body = [(''error'', JStr too_short_detail)]\<rparr>, [])"
  using assms by (auto simp add: do_POST_def Let_def truthy_def str_of_def)


lemma sublist_script:
  \<open>sublist (ascii ''<script>'')
     (html_head_http @ ascii ''<script>alert(1)</script>'' @ html_tail_http)\<close>
proof -
  have \<open>ascii ''<script>alert(1)</script>'' = ascii ''<script>'' @ ascii ''alert(1)</script>''\<close>
    by (simp add: ascii_def)
  then have \<open>html_head_http @ ascii ''<script>alert(1)</script>'' @ html_tail_http =
      html_head_http @ ascii ''<script>'' @ (ascii ''alert(1)</script>'' @ html_tail_http)\<close>
    by simp
  then show ?thesis
    by (simp only: sublist_appendI)
qed

text \<open>
  C6 at a failing input. In main.py, working\_server.py and clean\_server.py the summary
  goes through \<open>escape_summary\<close> before it is embedded (the lemmas above: no \<open><\<close> and
  no \<open>>\<close> remains, and \<open><script>\<close> becomes \<open>&lt;script&gt;\<close> in place). In
  simple\_http\_server.py \<open>send_email\<close> embeds \<open>{summary}\<close> as it is: when the provider
  returns \<open><script>alert(1)</script>\<close>, the request succeeds and the HTML body handed to
  the relay contains the raw \<open><script>\<close> tag.
\<close>

theorem raw_script_in_mail_http:
  \<open>http_status (fst (do_POST script_env (ascii ''/api/summarize'') (Inr mail_request))) = 200 \<and>
   map (html \<circ> message)
     (smtp_sessions (snd (do_POST script_env (ascii ''/api/summarize'') (Inr mail_request)))) =
     [html_head_http @ ascii ''<script>alert(1)</script>'' @ html_tail_http] \<and>
   sublist (ascii ''<script>'')
     (html_head_http @ ascii ''<script>alert(1)</script>'' @ html_tail_http)\<close>
proof -
  let ?call = "call_openai_api_http script_env sample_transcript
                 (dict_get (req_language mail_request) (ascii ''korean''))"
  have valid: "dict_get (req_transcript mail_request) [] = Some sample_transcript"
    "10 \<le> length sample_transcript"
    by (simp_all add: sample_requests length_sample_transcript)
  have call: "?call = (Inr script_summary, snd ?call)"
    by (rule call_http_script)
  have none: "smtp_sessions (snd ?call) = []"
    by (rule call_openai_api_http_smtp)
  have send: "send_email_http script_env (ascii ''pm@example.com'') script_summary None =
                (True, [Smtp \<lparr>smtp_server = ascii ''smtp.gmail.com'', smtp_port = 587,
                   login_user = str_of (GMAIL_USER script_env),
                   login_password = str_of (GMAIL_APP_PASSWORD script_env),
                   message = \<lparr>Subject = subject_ws None, From = str_of (GMAIL_USER script_env),
                              To = ascii ''pm@example.com'',
                              html = html_content_http script_summary\<rparr>\<rparr>])"
    by (simp add: send_email_http_def script_env_simps(3,4,5) accepting_relay_def Let_def)
  have email: "strip (str_of (dict_get (req_email mail_request) [])) = ascii ''pm@example.com''"
    by (simp add: mail_request_def str_of_def strip_address)
  have "do_POST script_env (ascii ''/api/summarize'') (Inr mail_request) =
          (\<lparr>http_status = 200, http_body = success_body script_summary True\<rparr>,
           snd ?call @ snd (send_email_http script_env (ascii ''pm@example.com'') script_summary None))"
    apply (subst do_POST_valid [OF valid])
    apply (subst call)
    apply (simp add: blank_samples email mail_request_simps send)
    done
  then have "http_status (fst (do_POST script_env (ascii ''/api/summarize'') (Inr mail_request))) = 200"
    and "map (html \<circ> message)
           (smtp_sessions (snd (do_POST script_env (ascii ''/api/summarize'') (Inr mail_request)))) =
         [html_content_http script_summary]"
    using none by (simp_all add: smtp_sessions_append send)
  then show ?thesis
    using sublist_script by (simp add: html_content_http_def script_summary_def)
qed

text \<open>
  The path of that request: the transcript passes the validation of \<open>do_POST\<close>, the
  recipient is not blank and the credentials are configured, so the mail is sent.
\<close>

theorem raw_script_in_mail_http_witness:
  \<open>truthy (dict_get (req_transcript mail_request) []) \<and>
   \<not> length (str_of (dict_get (req_transcript mail_request) [])) < 10 \<and>
   \<not> blank (dict_get (req_email mail_request) []) \<and>
   truthy (GMAIL_USER script_env) \<and> truthy (GMAIL_APP_PASSWORD script_env) \<and>
   http_status (fst (do_POST script_env (ascii ''/api/summarize'') (Inr mail_request))) = 200 \<and>
   map (html \<circ> message)
     (smtp_sessions (snd (do_POST script_env (ascii ''/api/summarize'') (Inr mail_request)))) =
     [html_head_http @ ascii ''<script>alert(1)</script>'' @ html_tail_http]\<close>
proof -
  have guard: "truthy (dict_get (req_transcript mail_request) [])"
    "\<not> length (str_of (dict_get (req_transcript mail_request) [])) < 10"
    by (simp_all add: sample_requests truthy_def str_of_def length_sample_transcript)
       (simp add: sample_transcript_def ascii_def)
  show ?thesis
    using raw_script_in_mail_http guard blank_samples(3) script_env_simps(4,5) by blast
qed

section \<open>The responses of \<open>do_POST\<close>\<close>

lemma do_POST_responses:
  "(\<exists>summary b. fst (do_POST env (ascii ''/api/summarize'') decoded) =
       \<lparr>http_status = 200, http_body = success_body summary b\<rparr>) \<or>
   (\<exists>e. fst (do_POST env (ascii ''/api/summarize'') decoded) =
       \<lparr>http_status = 500, http_body = [(''success'', JBool False), (''error'', JStr e)]\<rparr>) \<or>
   fst (do_POST env (ascii ''/api/summarize'') decoded) =
       \<lparr>http_status = 400, http_body = [(''error'', JStr too_short_detail)]\<rparr>"
proof (cases decoded)
  case (Inl e)
  then show ?thesis by (simp add: do_POST_def)
next
  case (Inr rd)
  show ?thesis
  proof (cases "dict_get (req_transcript rd) []")
    case None
    then show ?thesis using Inr do_POST_short [of rd env] by simp
  next
    case (Some t)
    show ?thesis
    proof (cases "length t < 10")
      case True
      then show ?thesis using Inr Some do_POST_short [of rd env] by simp
    next
      case False
      then have valid: "10 \<le> length t" by simp
      let ?language = "dict_get (req_language rd) (ascii ''korean'')"
      obtain res calls where call: "call_openai_api_http env t ?language = (res, calls)"
        by (cases "call_openai_api_http env t ?language")
      show ?thesis
        using Inr call
        by (cases res) (auto simp add: do_POST_valid [OF Some valid] split: prod.split)
    qed
  qed
qed

text \<open>
  C8 at a failing input. Every response of \<open>do_POST\<close> to \<open>/api/summarize\<close> has one of
  three shapes (the lemma above): status 200 with \<open>success\<close>, \<open>summary\<close> and
  \<open>emailSent\<close>; status 500 with \<open>success = False\<close> and \<open>error\<close>; or the response of
  the validation, status 400 with a body that has the key \<open>error\<close> only. So no failure
  has status 200, but the body of the 400 response omits \<open>success\<close>, which the 500
  response of the same function carries.
\<close>

theorem validation_body_without_success_http:
  \<open>do_POST sample_env (ascii ''/api/summarize'') (Inr short_request) =
     (\<lparr>http_status = 400, http_body = [(''error'', JStr too_short_detail)]\<rparr>, []) \<and>
   map_of (http_body (fst (do_POST sample_env (ascii ''/api/summarize'') (Inr short_request))))
     ''success'' = None \<and>
   http_status (fst (do_POST no_key_env (ascii ''/api/summarize'') (Inr mail_request))) = 500 \<and>
   map_of (http_body (fst (do_POST no_key_env (ascii ''/api/summarize'') (Inr mail_request))))
     ''success'' = Some (JBool False)\<close>
proof -
  have short: "do_POST sample_env (ascii ''/api/summarize'') (Inr short_request) =
     (\<lparr>http_status = 400, http_body = [(''error'', JStr too_short_detail)]\<rparr>, [])"
    by (rule do_POST_short) (simp add: short_request_def ascii_def)
  have valid: "dict_get (req_transcript mail_request) [] = Some sample_transcript"
    "10 \<le> length sample_transcript"
    by (simp_all add: sample_requests length_sample_transcript)
  have "fst (do_POST no_key_env (ascii ''/api/summarize'') (Inr mail_request)) =
          \<lparr>http_status = 500,
           http_body = [(''success'', JBool False), (''error'', JStr key_missing_detail)]\<rparr>"
    by (simp add: do_POST_valid [OF valid] call_openai_api_http_def env_simps)
  then show ?thesis using short by simp
qed

text \<open>The path of that request: the validation of \<open>do_POST\<close> rejects the transcript.\<close>

theorem validation_body_without_success_http_witness:
  \<open>length (str_of (dict_get (req_transcript short_request) [])) < 10 \<and>
   http_status (fst (do_POST sample_env (ascii ''/api/summarize'') (Inr short_request))) = 400 \<and>
   map_of (http_body (fst (do_POST sample_env (ascii ''/api/summarize'') (Inr short_request))))
     ''success'' = None\<close>
proof -
  have guard: "length (str_of (dict_get (req_transcript short_request) [])) < 10"
    by (simp add: short_request_def str_of_def ascii_def)
  show ?thesis
    using validation_body_without_success_http guard by simp
qed

section \<open>The meeting information in the mail body\<close>

lemma meta_info_ws_dated:
  "map_of meeting_info (ascii ''date'') = Some d \<Longrightarrow>
   meta_info_ws meeting_info =
     Inr (meta_date @ d
          @ meta_startTime @ get_default meeting_info (ascii ''startTime'') []
          @ meta_duration @ get_default meeting_info (ascii ''duration'') []
          @ meta_segmentCount @ get_default meeting_info (ascii ''segmentCount'') []
          @ meta_end_ws)"
  by (simp add: meta_info_ws_def)

lemma meta_info_ws_undated:
  "map_of meeting_info (ascii ''date'') = None \<Longrightarrow>
   meta_info_ws meeting_info = Inl (KeyError (ascii ''date''))"
  by (simp add: meta_info_ws_def)

lemma send_email_clean_accepted:
  assumes "truthy (GMAIL_USER env)" and "truthy (GMAIL_APP_PASSWORD env)"
    and "relay env = accepting_relay"
  shows "fst (send_email_clean env email summary meeting_info) = True \<and>
         map (html \<circ> message) (smtp_sessions (snd (send_email_clean env email summary meeting_info))) =
           [html_content_clean summary meeting_info]"
  using assms by (simp add: send_email_clean_def accepting_relay_def Let_def)

lemma undated: "map_of [(ascii ''startTime'', ascii ''10:00'')] (ascii ''date'') = None"
  by (simp add: ascii_def)

text \<open>
  C9 at a failing input. In working\_server.py the meeting-information block reads the
  date with \<open>meeting_info["date"]\<close>, while the subject line and the other three fields
  use \<open>.get\<close> with a default. For a \<open>meetingInfo\<close> that has a start time and no date the
  composition of the body raises \<open>KeyError\<close>; \<open>send_email\<close> catches it and returns
  \<open>False\<close>, so although the credentials are configured and the relay accepts every
  session, no mail is sent and the response says \<open>emailSent = False\<close>. clean\_server.py
  tests \<open>"date" in meeting_info\<close> first and sends the mail for the same input.
\<close>

theorem missing_date_drops_mail_ws:
  \<open>html_content_ws sample_summary (Some [(ascii ''startTime'', ascii ''10:00'')]) =
     Inl (KeyError (ascii ''date'')) \<and>
   fst (summarize_and_email_ws sample_env undated_request) =
     Inr (success_body sample_summary False) \<and>
   smtp_sessions (snd (summarize_and_email_ws sample_env undated_request)) = [] \<and>
   fst (send_email_clean sample_env (ascii ''pm@example.com'') sample_summary
          (Some [(ascii ''startTime'', ascii ''10:00'')])) = True\<close>
proof -
  let ?info = \<open>Some [(ascii ''startTime'', ascii ''10:00'')]\<close>
  let ?call = "call_openai_api_ws sample_env sample_transcript
                 (dict_get (req_language undated_request) (ascii ''korean''))"
  have html: "html_content_ws sample_summary ?info = Inl (KeyError (ascii ''date''))"
    by (simp add: html_content_ws_def truthy_dict_def dict_of_def meta_info_ws_undated [OF undated])
  have valid: "dict_get (req_transcript undated_request) [] = Some sample_transcript"
    "10 \<le> length sample_transcript"
    by (simp_all add: undated_request_def length_sample_transcript)
  have email: "\<not> blank (dict_get (req_email undated_request) [])"
    "strip (str_of (dict_get (req_email undated_request) [])) = ascii ''pm@example.com''"
    "dict_get (req_meetingInfo undated_request) [] = ?info"
    by (simp_all add: undated_request_def blank_def str_of_def strip_address)
       (simp add: ascii_def)
  have send: "send_email_ws sample_env (ascii ''pm@example.com'') sample_summary ?info =
                (False, [])"
    by (simp add: send_email_ws_def sample_env_simps html Let_def)
  obtain calls where call: "?call = (Inr sample_summary, calls)"
    using call_ws_sample [of sample_env sample_transcript
            "dict_get (req_language undated_request) (ascii ''korean'')"]
    by (cases ?call) (simp add: sample_env_simps)
  then have none: "smtp_sessions calls = []"
    using call_openai_api_ws_smtp [of sample_env sample_transcript
            "dict_get (req_language undated_request) (ascii ''korean'')"]
    by simp
  have "summarize_and_email_ws sample_env undated_request =
          (Inr (success_body sample_summary False), calls)"
    by (simp add: ws_valid [OF valid] call email send)
  then show ?thesis
    using html none send_email_clean_accepted [of sample_env]
    by (simp add: sample_env_simps)
qed

text \<open>
  The path of that request: the transcript is valid, the recipient is not blank and the
  credentials are configured, so \<open>send_email\<close> runs up to the composition of the body.
\<close>

theorem missing_date_drops_mail_ws_witness:
  \<open>dict_get (req_transcript undated_request) [] = Some sample_transcript \<and>
   10 \<le> length sample_transcript \<and>
   \<not> blank (dict_get (req_email undated_request) []) \<and>
   truthy (GMAIL_USER sample_env) \<and> truthy (GMAIL_APP_PASSWORD sample_env) \<and>
   truthy_dict (dict_get (req_meetingInfo undated_request) []) \<and>
   fst (summarize_and_email_ws sample_env undated_request) =
     Inr (success_body sample_summary False) \<and>
   smtp_sessions (snd (summarize_and_email_ws sample_env undated_request)) = []\<close>
proof -
  have guard: "dict_get (req_transcript undated_request) [] = Some sample_transcript"
    "10 \<le> length sample_transcript"
    "\<not> blank (dict_get (req_email undated_request) [])"
    "truthy_dict (dict_get (req_meetingInfo undated_request) [])"
    by (simp_all add: undated_request_def length_sample_transcript blank_def truthy_dict_def
          strip_address)
       (simp add: ascii_def)
  show ?thesis
    using missing_date_drops_mail_ws guard sample_env_simps(4,5) by blast
qed

section \<open>The \<open>prompt\<close> field of main.py\<close>

text \<open>
  The templates of main.py are the strings its two functions return (286 and 600 code
  points); those of working\_server.py have 348 and 511. The provider request of
  \<open>generate_summary\<close> carries one user message: the template chosen by \<open>language\<close>, the
  heading, and the transcript.
\<close>

lemma length_prompts_main:
  "length get_korean_prompt_main = 286" "length get_english_prompt_main = 600"
  by (simp_all add: get_korean_prompt_main_def get_english_prompt_main_def ascii_def)

lemma length_prompts:
  "length get_korean_prompt = 348" "length get_english_prompt = 511"
  by (simp_all add: get_korean_prompt_def get_english_prompt_def ascii_def)

lemma generate_summary_main_posts:
  assumes "truthy (OPENAI_API_KEY env)"
  shows "map (user_contents \<circ> messages \<circ> json)
           (posts (snd (generate_summary_main env transcript language))) =
         [[(if language = ascii ''korean'' then get_korean_prompt_main
            else get_english_prompt_main)
           @ transcript_heading_main @ transcript]]"
  using assms
  by (simp add: generate_summary_main_def call_openai_api_main_def Let_def ascii_def
        split: post_result.split sum.split)

text \<open>
  C10. \<open>SummaryRequest\<close> has the optional field \<open>prompt\<close>, and
  \<open>summarize_and_email\<close> never reads it: two requests that differ only in \<open>prompt\<close>
  give the same result and the same outbound calls, hence the same provider request with
  the same system and user messages (the message that \<open>generate_summary_main_posts\<close>
  describes).
\<close>

theorem prompt_is_ignored:
  "summarize_and_email_main env (r\<lparr>sr_prompt := p\<rparr>) = summarize_and_email_main env r"
  by (simp add: summarize_and_email_main_def split: prod.split sum.split)

theorem prompt_is_ignored_witness:
  "summarize_and_email_main sample_env prompted_request_main =
   summarize_and_email_main sample_env sample_request_main"
  unfolding prompted_request_main_def
  using prompt_is_ignored
          [where env = sample_env and r = sample_request_main
             and p = \<open>Some (ascii ''Ignore the transcript.'')\<close>]
  by simp

end
